theory Spec2Isabelle
  imports Main "HOL-Library.AList"
begin

section \<open>The chat client's synchronisation hook (hooks/useChatConnection)\<close>

text \<open>
  A shallow embedding of the React hook \<^verbatim>\<open>useChatConnection\<close>: the message log, the
  conversation directory, the socket event handlers and the dispatcher operations.

  Conventions of the embedding.
  \<^item> Record fields carry a prefix naming their interface (\<open>m_\<close> for \<^verbatim>\<open>Message\<close>, \<open>c_\<close> for
    \<^verbatim>\<open>Chat\<close>, \<open>d_\<close> for the payload of the inbound \<^verbatim>\<open>message\<close> event, \<open>db_\<close> for
    \<^verbatim>\<open>DbMessage\<close>, \<open>o_\<close> for an emitted \<^verbatim>\<open>message\<close> payload, \<open>u_\<close> for the upload
    descriptor), since \<^verbatim>\<open>id\<close> and \<^verbatim>\<open>text\<close> are taken in Isabelle and the interfaces share
    field names.
  \<^item> An optional or possibly \<^verbatim>\<open>undefined\<close> JavaScript value is an \<open>option\<close>; \<open>None\<close> is
    \<^verbatim>\<open>undefined\<close> (or \<^verbatim>\<open>null\<close> for \<^verbatim>\<open>activeChatId\<close> and \<^verbatim>\<open>socket\<close>). A message's
    \<^verbatim>\<open>id\<close> and \<^verbatim>\<open>sender\<close> are optional here although \<^verbatim>\<open>types.ts\<close> declares them
    \<^verbatim>\<open>string\<close>: the handler stores \<^verbatim>\<open>data.id!\<close> and \<^verbatim>\<open>data.user || data.username\<close>,
    which are \<^verbatim>\<open>undefined\<close> at run time when the server leaves the fields out.
  \<^item> Strings are byte strings; \<^verbatim>\<open>trim\<close>, \<^verbatim>\<open>toLowerCase\<close> and \<^verbatim>\<open>toUpperCase\<close> are modelled
    on ASCII.
  \<^item> Times are integers (milliseconds since the epoch). A date string of the protocol is
    held as the instant \<^verbatim>\<open>new Date(s).getTime()\<close> denotes; \<open>None\<close> is an absent (or empty)
    string. Strings that are no dates (\<^verbatim>\<open>NaN\<close>) are outside the model.
  \<^item> \<^verbatim>\<open>Date.now()\<close> and the digits drawn by \<^verbatim>\<open>Math.random()\<close> are parameters of the
    function that reads them; one handler run reads one clock value.
  \<^item> A state updater passed to \<^verbatim>\<open>setMessages\<close> or \<^verbatim>\<open>setChats\<close> is queued: React runs the
    queued updaters at the next render, in the order of their calls, each on the result of
    the one before. A function of this theory returns the state after that render. What an
    updater assigns to a variable of its handler is therefore not yet there when the handler
    reads the variable right after the call.
  \<^item> \<^verbatim>\<open>console\<close> output is not part of the state.
\<close>

subsection \<open>JavaScript values\<close>

datatype js_error = TypeError

text \<open>Truthiness of an optional string: \<^verbatim>\<open>undefined\<close>, \<^verbatim>\<open>null\<close> and \<^verbatim>\<open>''\<close> are falsy.\<close>

definition truthy :: "string option \<Rightarrow> bool" where
  "truthy v = (case v of None \<Rightarrow> False | Some s \<Rightarrow> s \<noteq> [])"

text \<open>\<^verbatim>\<open>a || b\<close> on optional strings.\<close>

definition js_or :: "string option \<Rightarrow> string option \<Rightarrow> string option" where
  "js_or a b = (if truthy a then a else b)"

text \<open>\<^verbatim>\<open>a || ''\<close>.\<close>

definition orEmpty :: "string option \<Rightarrow> string" where
  "orEmpty a = (case a of None \<Rightarrow> [] | Some s \<Rightarrow> s)"

definition isWhiteSpace :: "char \<Rightarrow> bool" where
  "isWhiteSpace c = (c \<in> set [CHR 0x09, CHR 0x0A, CHR 0x0B, CHR 0x0C, CHR 0x0D, CHR 0x20])"

definition trim :: "string \<Rightarrow> string" where
  "trim s = rev (dropWhile isWhiteSpace (rev (dropWhile isWhiteSpace s)))"

definition lowerChar :: "char \<Rightarrow> char" where
  "lowerChar c = (let n = (of_char c :: nat) in if 65 \<le> n \<and> n \<le> 90 then char_of (n + 32) else c)"

definition upperChar :: "char \<Rightarrow> char" where
  "upperChar c = (let n = (of_char c :: nat) in if 97 \<le> n \<and> n \<le> 122 then char_of (n - 32) else c)"

definition toLowerCase :: "string \<Rightarrow> string" where
  "toLowerCase s = map lowerChar s"

definition toUpperCase :: "string \<Rightarrow> string" where
  "toUpperCase s = map upperChar s"

text \<open>\<^verbatim>\<open>s.includes('-')\<close>.\<close>

definition includesHyphen :: "string \<Rightarrow> bool" where
  "includesHyphen s = (CHR ''-'' \<in> set s)"

text \<open>
  \<^verbatim>\<open>Math.random().toString(36).substring(7)\<close>. The random number lies in \<open>[0, 1)\<close>; in
  radix 36 it prints as \<^verbatim>\<open>0\<close> when it is zero and otherwise as \<^verbatim>\<open>0.\<close> followed by its
  digits, each one of \<^verbatim>\<open>0..9a..z\<close>. The digits are the parameter \<open>ds\<close>.
\<close>

definition digit36 :: "nat \<Rightarrow> char" where
  "digit36 d = ''0123456789abcdefghijklmnopqrstuvwxyz'' ! (d mod 36)"

definition toString36 :: "nat list \<Rightarrow> string" where
  "toString36 ds = (if ds = [] then ''0'' else ''0.'' @ map digit36 ds)"

definition substring :: "nat \<Rightarrow> string \<Rightarrow> string" where
  "substring n s = drop n s"

definition randomId :: "nat list \<Rightarrow> string" where
  "randomId ds = substring 7 (toString36 ds)"

subsection \<open>types.ts\<close>

type_synonym reactions = "(string \<times> string list) list"

record Message =
  m_id :: "string option"
  m_text :: string
  m_sender :: "string option"
  m_timestamp :: int
  m_isSystem :: bool
  m_isMe :: bool
  m_messageType :: "string option"
  m_mediaUrl :: "string option"
  m_mediaType :: "string option"
  m_mediaDuration :: "int option"
  m_fileName :: "string option"
  m_fileSize :: "int option"
  m_updatedAt :: "int option"
  m_isDeleted :: "bool option"
  m_replyToId :: "string option"
  m_chatId :: "string option"
  m_reactions :: "reactions option"
  m_isForwarded :: "bool option"
  m_forwardedFrom :: "string option"

text \<open>\<^verbatim>\<open>string | number\<close> for the times of a \<^verbatim>\<open>Chat\<close>.\<close>

datatype js_time = TimeString string | TimeNumber int

record Chat =
  c_id :: string
  c_name :: string
  c_description :: "string option"
  c_lastMessageAt :: "js_time option"
  c_createdAt :: js_time

datatype ConnectionStatus = DISCONNECTED | CONNECTING | CONNECTED | ERROR

record UserSettings =
  username :: string
  serverUrl :: string
  isDemoMode :: bool

subsection \<open>Payloads\<close>

text \<open>The payload of the inbound \<^verbatim>\<open>message\<close> event.\<close>

record MessageData =
  d_id :: "string option"
  d_tempId :: "string option"
  d_user :: "string option"
  d_username :: "string option"
  d_text :: string
  d_createdAt :: "int option"
  d_messageType :: "string option"
  d_mediaUrl :: "string option"
  d_mediaType :: "string option"
  d_mediaDuration :: "int option"
  d_fileName :: "string option"
  d_fileSize :: "int option"
  d_replyToId :: "string option"
  d_chatId :: "string option"
  d_isForwarded :: "bool option"
  d_forwardedFrom :: "string option"

text \<open>\<^verbatim>\<open>DbMessage\<close>, the history format of the query interface.\<close>

record DbMessage =
  db_id :: string
  db_username :: string
  db_content :: string
  db_createdAt :: int
  db_messageType :: string
  db_mediaUrl :: "string option"
  db_mediaType :: "string option"
  db_mediaDuration :: "int option"
  db_fileName :: "string option"
  db_fileSize :: "int option"
  db_replyToId :: "string option"
  db_chatId :: "string option"
  db_reactions :: "reactions option"
  db_isForwarded :: "bool option"
  db_forwardedFrom :: "string option"

text \<open>The payload of an emitted \<^verbatim>\<open>message\<close> event (text send, media send, forward).\<close>

record OutMessage =
  o_user :: string
  o_username :: "string option"
  o_text :: string
  o_tempId :: "string option"
  o_replyToId :: "string option"
  o_chatId :: "string option"
  o_messageType :: "string option"
  o_mediaUrl :: "string option"
  o_mediaType :: "string option"
  o_fileName :: "string option"
  o_fileSize :: "int option"
  o_mediaDuration :: "int option"
  o_isForwarded :: "bool option"
  o_forwardedFrom :: "string option"

text \<open>The upload descriptor handed to \<^verbatim>\<open>sendMediaMessage\<close>.\<close>

record UploadData =
  u_messageType :: string
  u_mediaUrl :: string
  u_mediaType :: string
  u_fileName :: string
  u_fileSize :: int
  u_mediaDuration :: "int option"

text \<open>What \<^verbatim>\<open>socket.emit\<close> sends.\<close>

datatype Emit =
    EmitMessage OutMessage
  | EmitEditMessage string string
  | EmitDeleteMessage string
  | EmitCreateChat string "string option"
  | EmitToggleReaction string string string
  | EmitJoinChat string
  | EmitJoin string

subsection \<open>The hook's state\<close>

text \<open>
  \<open>socket\<close> is \<open>None\<close> for \<^verbatim>\<open>null\<close> and \<open>Some c\<close> for a socket whose \<^verbatim>\<open>connected\<close> flag is
  \<open>c\<close>. \<open>emitted\<close> lists what \<^verbatim>\<open>socket.emit\<close> has sent, \<open>demoTimers\<close> counts the simulated
  replies scheduled with \<^verbatim>\<open>setTimeout\<close>, \<open>fetches\<close> lists the history fetches in flight
  (the conversation and the user name their continuation has captured).
\<close>

record State =
  messages :: "Message list"
  chats :: "Chat list"
  activeChatId :: "string option"
  activeChatIdRef :: "string option"
  status :: ConnectionStatus
  socket :: "bool option"
  settings :: UserSettings
  emitted :: "Emit list"
  demoTimers :: nat
  fetches :: "(string \<times> string) list"

text \<open>\<^verbatim>\<open>socket && socket.connected\<close>.\<close>

definition socketConnected :: "State \<Rightarrow> bool" where
  "socketConnected st = (case socket st of None \<Rightarrow> False | Some c \<Rightarrow> c)"

subsection \<open>addMessage\<close>

definition newLocalMessage ::
  "string \<Rightarrow> string \<Rightarrow> string \<Rightarrow> int \<Rightarrow> bool \<Rightarrow> bool \<Rightarrow> string option \<Rightarrow> Message" where
  "newLocalMessage i txt sndr now isMe isSystem replyToId =
     \<lparr>m_id = Some i, m_text = txt, m_sender = Some sndr, m_timestamp = now,
      m_isSystem = isSystem, m_isMe = isMe, m_messageType = None, m_mediaUrl = None,
      m_mediaType = None, m_mediaDuration = None, m_fileName = None, m_fileSize = None,
      m_updatedAt = None, m_isDeleted = None, m_replyToId = replyToId, m_chatId = None,
      m_reactions = None, m_isForwarded = None, m_forwardedFrom = None\<rparr>"

text \<open>\<open>addMessage\<close> returns the new id with the state.\<close>

definition addMessage ::
  "string \<Rightarrow> string \<Rightarrow> bool \<Rightarrow> bool \<Rightarrow> string option \<Rightarrow> int \<Rightarrow> nat list \<Rightarrow> State \<Rightarrow> string \<times> State" where
  "addMessage txt sndr isMe isSystem replyToId now ds st =
     (let i = randomId ds;
          newMessage = newLocalMessage i txt sndr now isMe isSystem replyToId
      in (i, st\<lparr>messages := messages st @ [newMessage]\<rparr>))"

subsection \<open>The socket's \<^verbatim>\<open>message\<close> handler\<close>

definition isFromMe :: "UserSettings \<Rightarrow> MessageData \<Rightarrow> bool" where
  "isFromMe s data =
     (let senderName = toLowerCase (trim (orEmpty (js_or (js_or (d_user data) (d_username data)) (Some []))));
          currentUserName = toLowerCase (trim (orEmpty (js_or (Some (username s)) (Some []))))
      in senderName = currentUserName)"

text \<open>The client-side isolation check (made before the reconciliation and before the append).\<close>

definition forOtherChat :: "MessageData \<Rightarrow> string option \<Rightarrow> bool" where
  "forOtherChat data current = (truthy (d_chatId data) \<and> truthy current \<and> d_chatId data \<noteq> current)"

text \<open>The object the callback of \<^verbatim>\<open>prev.map\<close> returns on a match.\<close>

definition synced :: "MessageData \<Rightarrow> Message \<Rightarrow> Message" where
  "synced data msg =
     msg\<lparr>m_id := d_id data,
         m_timestamp := (case d_createdAt data of Some t \<Rightarrow> t | None \<Rightarrow> m_timestamp msg),
         m_replyToId := d_replyToId data\<rparr>"

text \<open>
  The callback of \<^verbatim>\<open>prev.map\<close>, with the value it gives \<^verbatim>\<open>matched\<close>. The call
  \<^verbatim>\<open>msg.id.includes('-')\<close> throws a \<^verbatim>\<open>TypeError\<close> on an \<^verbatim>\<open>undefined\<close> id; it is reached
  only when the first disjunct and the two conjuncts before it allow.
\<close>

definition syncOne :: "MessageData \<Rightarrow> bool \<Rightarrow> Message \<Rightarrow> js_error + (bool \<times> Message)" where
  "syncOne data fromMe msg =
     (if m_id msg = d_tempId data then Inr (True, synced data msg)
      else if fromMe \<and> m_text msg = d_text data then
        (case m_id msg of
           None \<Rightarrow> Inl TypeError
         | Some i \<Rightarrow> if \<not> includesHyphen i then Inr (True, synced data msg) else Inr (False, msg))
      else Inr (False, msg))"

fun syncAll :: "MessageData \<Rightarrow> bool \<Rightarrow> Message list \<Rightarrow> js_error + (bool \<times> Message list)" where
  "syncAll data fromMe [] = Inr (False, [])"
| "syncAll data fromMe (msg # prev) =
     (case syncOne data fromMe msg of
        Inl e \<Rightarrow> Inl e
      | Inr (b, msg') \<Rightarrow>
          (case syncAll data fromMe prev of
             Inl e \<Rightarrow> Inl e
           | Inr (matched, prev') \<Rightarrow> Inr (b \<or> matched, msg' # prev')))"

text \<open>\<^verbatim>\<open>findIndex\<close>, with \<open>None\<close> for \<open>-1\<close>.\<close>

fun findIndex :: "('a \<Rightarrow> bool) \<Rightarrow> 'a list \<Rightarrow> nat option" where
  "findIndex P [] = None"
| "findIndex P (x # xs) =
     (if P x then Some 0 else (case findIndex P xs of None \<Rightarrow> None | Some i \<Rightarrow> Some (Suc i)))"

text \<open>
  The updater given to \<^verbatim>\<open>setChats\<close>, by the handler and by both sends: \<^verbatim>\<open>splice\<close> takes the
  conversation out, its \<^verbatim>\<open>lastMessageAt\<close> is set, and it is put in front.
\<close>

definition moveChatToTop :: "string \<Rightarrow> int \<Rightarrow> Chat list \<Rightarrow> Chat list" where
  "moveChatToTop cid ts prevChats =
     (case findIndex (\<lambda>c. c_id c = cid) prevChats of
        None \<Rightarrow> prevChats
      | Some chatIndex \<Rightarrow>
          (let movedChat = prevChats ! chatIndex;
               updatedChats = take chatIndex prevChats @ drop (Suc chatIndex) prevChats
           in movedChat\<lparr>c_lastMessageAt := Some (TimeNumber ts)\<rparr> # updatedChats))"

text \<open>The message the handler appends for a remote insert.\<close>

definition remoteMessage :: "MessageData \<Rightarrow> int \<Rightarrow> nat list \<Rightarrow> Message" where
  "remoteMessage data currentTime ds =
     \<lparr>m_id = (if truthy (d_id data) then d_id data else Some (randomId ds)),
      m_text = d_text data,
      m_sender = js_or (d_user data) (d_username data),
      m_timestamp = (case d_createdAt data of Some t \<Rightarrow> t | None \<Rightarrow> currentTime),
      m_isSystem = False, m_isMe = False,
      m_messageType = d_messageType data, m_mediaUrl = d_mediaUrl data,
      m_mediaType = d_mediaType data, m_mediaDuration = d_mediaDuration data,
      m_fileName = d_fileName data, m_fileSize = d_fileSize data,
      m_updatedAt = None, m_isDeleted = None,
      m_replyToId = d_replyToId data, m_chatId = d_chatId data,
      m_reactions = None,
      m_isForwarded = d_isForwarded data, m_forwardedFrom = d_forwardedFrom data\<rparr>"

text \<open>The test of the content-based fallback, on one entry of the log.\<close>

definition isDuplicateOf :: "MessageData \<Rightarrow> int \<Rightarrow> Message \<Rightarrow> bool" where
  "isDuplicateOf data currentTime msg =
     (let recentTime = currentTime - 10000
      in m_text msg = d_text data \<and>
         m_sender msg = js_or (d_user data) (d_username data) \<and>
         m_timestamp msg > recentTime \<and>
         \<not> m_isSystem msg)"

text \<open>
  The second updater of the handler (the remote insert): the check by id, the check by
  content, the isolation check, the new message, the reordering of the directory.
\<close>

definition remoteInsert :: "MessageData \<Rightarrow> int \<Rightarrow> nat list \<Rightarrow> State \<Rightarrow> State" where
  "remoteInsert data currentTime ds st =
     (let prev = messages st in
      if truthy (d_id data) \<and> list_ex (\<lambda>m. m_id m = d_id data) prev then st
      else
        (case find (isDuplicateOf data currentTime) prev of
           Some duplicate \<Rightarrow> st
         | None \<Rightarrow>
             if forOtherChat data (activeChatIdRef st) then st
             else
               (let newMessage = remoteMessage data currentTime ds;
                    st' = (case d_chatId data of
                             None \<Rightarrow> st
                           | Some cid \<Rightarrow>
                               if cid = [] then st
                               else st\<lparr>chats := moveChatToTop cid (m_timestamp newMessage) (chats st)\<rparr>)
                in st'\<lparr>messages := prev @ [newMessage]\<rparr>)))"

text \<open>
  The handler. It declares \<^verbatim>\<open>matched\<close> as false, queues the reconciliation pass, which
  would set it, and reads it at once: the pass has not run, \<^verbatim>\<open>matched\<close> is false, the
  handler does not return, and the remote insert is queued behind the pass. At the render
  the pass runs on the log, and the remote insert on its result.
\<close>

definition onMessage :: "MessageData \<Rightarrow> int \<Rightarrow> nat list \<Rightarrow> State \<Rightarrow> js_error + State" where
  "onMessage data currentTime ds st =
     (let fromMe = isFromMe (settings st) data in
      if forOtherChat data (activeChatIdRef st) then Inr st
      else if truthy (d_tempId data) \<or> fromMe then
        (case syncAll data fromMe (messages st) of
           Inl e \<Rightarrow> Inl e
         | Inr (assigned, prev') \<Rightarrow> Inr (remoteInsert data currentTime ds (st\<lparr>messages := prev'\<rparr>)))
      else Inr (remoteInsert data currentTime ds st))"

subsection \<open>The other socket handlers\<close>

definition onMessageUpdated :: "string \<Rightarrow> string \<Rightarrow> int \<Rightarrow> State \<Rightarrow> State" where
  "onMessageUpdated i txt updatedAt st =
     st\<lparr>messages := map (\<lambda>msg. if m_id msg = Some i
                                then msg\<lparr>m_text := txt, m_updatedAt := Some updatedAt\<rparr>
                                else msg) (messages st)\<rparr>"

definition onMessageDeleted :: "string \<Rightarrow> State \<Rightarrow> State" where
  "onMessageDeleted i st = st\<lparr>messages := filter (\<lambda>msg. m_id msg \<noteq> Some i) (messages st)\<rparr>"

definition onReactionUpdated :: "string \<Rightarrow> reactions \<Rightarrow> State \<Rightarrow> State" where
  "onReactionUpdated messageId rs st =
     st\<lparr>messages := map (\<lambda>msg. if m_id msg = Some messageId
                                then msg\<lparr>m_reactions := Some rs\<rparr>
                                else msg) (messages st)\<rparr>"

definition onChatCreated :: "Chat \<Rightarrow> State \<Rightarrow> State" where
  "onChatCreated newChat st = st\<lparr>chats := newChat # chats st\<rparr>"

subsection \<open>The active conversation: history and room\<close>

text \<open>What \<^verbatim>\<open>await fetch\<close> gives: a response that is \<^verbatim>\<open>ok\<close> with its body, one that is not, or an exception.\<close>

datatype 'a Response = Ok 'a | NotOk | Threw

text \<open>The message \<^verbatim>\<open>loadHistory\<close> makes of a row of the history.\<close>

definition fromDb :: "string \<Rightarrow> DbMessage \<Rightarrow> Message" where
  "fromDb settingsUsername dbMsg =
     \<lparr>m_id = Some (db_id dbMsg),
      m_text = db_content dbMsg,
      m_sender = Some (db_username dbMsg),
      m_timestamp = db_createdAt dbMsg,
      m_isSystem = False,
      m_isMe = (db_username dbMsg = settingsUsername),
      m_messageType = Some (db_messageType dbMsg), m_mediaUrl = db_mediaUrl dbMsg,
      m_mediaType = db_mediaType dbMsg, m_mediaDuration = db_mediaDuration dbMsg,
      m_fileName = db_fileName dbMsg, m_fileSize = db_fileSize dbMsg,
      m_updatedAt = None, m_isDeleted = None,
      m_replyToId = db_replyToId dbMsg, m_chatId = db_chatId dbMsg,
      m_reactions = Some (case db_reactions dbMsg of None \<Rightarrow> [] | Some rs \<Rightarrow> rs),
      m_isForwarded = db_isForwarded dbMsg, m_forwardedFrom = db_forwardedFrom dbMsg\<rparr>"

text \<open>\<^verbatim>\<open>loadHistory\<close> up to its \<^verbatim>\<open>await\<close>: the log is cleared and the fetch is in flight.\<close>

definition loadHistory_start :: "State \<Rightarrow> State" where
  "loadHistory_start st =
     (case activeChatId st of
        None \<Rightarrow> st
      | Some a \<Rightarrow>
          if a = [] then st
          else st\<lparr>messages := [], fetches := fetches st @ [(a, username (settings st))]\<rparr>)"

text \<open>
  \<^verbatim>\<open>loadHistory\<close> after its \<^verbatim>\<open>await\<close>, for the fetch \<open>f\<close> (the conversation and the user
  name of its closure) and the response that arrived.
\<close>

definition loadHistory_resume :: "string \<times> string \<Rightarrow> DbMessage list Response \<Rightarrow> State \<Rightarrow> State" where
  "loadHistory_resume f response st =
     (let st' = st\<lparr>fetches := remove1 f (fetches st)\<rparr> in
      case response of
        Ok dbMessages \<Rightarrow>
          (let loadedMessages = map (fromDb (snd f)) (rev dbMessages)
           in st'\<lparr>messages := loadedMessages\<rparr>)
      | NotOk \<Rightarrow> st'
      | Threw \<Rightarrow> st')"

text \<open>The effect that runs when the active conversation (or the connection) has changed.\<close>

definition activeChatEffect :: "State \<Rightarrow> State" where
  "activeChatEffect st =
     (let st1 = st\<lparr>activeChatIdRef := activeChatId st\<rparr> in
      if status st1 \<noteq> CONNECTED \<or> isDemoMode (settings st1) then st1
      else
        (let st2 = loadHistory_start st1 in
         case activeChatId st2 of
           None \<Rightarrow> st2
         | Some a \<Rightarrow>
             if socketConnected st2 \<and> a \<noteq> [] then st2\<lparr>emitted := emitted st2 @ [EmitJoinChat a]\<rparr>
             else st2))"

text \<open>\<^verbatim>\<open>setActiveChatId\<close> from the conversation list, with the effect its new value triggers.\<close>

definition setActiveChatId :: "string \<Rightarrow> State \<Rightarrow> State" where
  "setActiveChatId cid st =
     (if activeChatId st = Some cid then st else activeChatEffect (st\<lparr>activeChatId := Some cid\<rparr>))"

subsection \<open>The dispatcher\<close>

text \<open>\<^verbatim>\<open>settingsRef.current.username?.trim() || 'Anonymous'\<close>.\<close>

definition senderOf :: "UserSettings \<Rightarrow> string" where
  "senderOf s = (let t = trim (username s) in if t \<noteq> [] then t else ''Anonymous'')"

definition textPayload :: "string \<Rightarrow> string \<Rightarrow> string \<Rightarrow> string option \<Rightarrow> string option \<Rightarrow> OutMessage" where
  "textPayload usr txt tempId replyToId chatId =
     \<lparr>o_user = usr, o_username = None, o_text = txt, o_tempId = Some tempId,
      o_replyToId = replyToId, o_chatId = chatId, o_messageType = None, o_mediaUrl = None,
      o_mediaType = None, o_fileName = None, o_fileSize = None, o_mediaDuration = None,
      o_isForwarded = None, o_forwardedFrom = None\<rparr>"

text \<open>\<^verbatim>\<open>activeChatId || undefined\<close>.\<close>

definition orUndefined :: "string option \<Rightarrow> string option" where
  "orUndefined a = (if truthy a then a else None)"

text \<open>The optimistic reordering of the directory after an emission.\<close>

definition moveActiveChatToTop :: "int \<Rightarrow> State \<Rightarrow> State" where
  "moveActiveChatToTop now st =
     (case activeChatId st of
        None \<Rightarrow> st
      | Some a \<Rightarrow> if a = [] then st else st\<lparr>chats := moveChatToTop a now (chats st)\<rparr>)"

text \<open>\<open>ds\<close> are the digits of the optimistic id, \<open>ds'\<close> those of a notice's id.\<close>

definition sendMessage :: "string \<Rightarrow> string option \<Rightarrow> int \<Rightarrow> nat list \<Rightarrow> nat list \<Rightarrow> State \<Rightarrow> State" where
  "sendMessage txt replyToId now ds ds' st =
     (if txt = [] then st
      else
        (let trimmedText = trim txt in
         if trimmedText = [] then st
         else
           (let usr = senderOf (settings st) in
            if usr = [] then st
            else
              (let (tempId, st1) = addMessage trimmedText usr True False replyToId now ds st in
               if isDemoMode (settings st1) then st1\<lparr>demoTimers := Suc (demoTimers st1)\<rparr>
               else if socketConnected st1 then
                 (let messageData = textPayload usr trimmedText tempId replyToId (orUndefined (activeChatId st1)) in
                  if o_text messageData = [] \<or> o_user messageData = [] then
                    snd (addMessage ''Error: Invalid message format'' ''System'' False True None now ds' st1)
                  else moveActiveChatToTop now (st1\<lparr>emitted := emitted st1 @ [EmitMessage messageData]\<rparr>))
               else snd (addMessage ''Message not sent: Disconnected'' ''System'' False True None now ds' st1)))))"

definition DEMO_RESPONSES :: "string list" where
  "DEMO_RESPONSES =
     [''Roger that. Signal is clear.'', ''Interference detected in sector 7.'',
      ''Copy. Holding position.'', ''Network check: latency 4ms.'', ''System optimal.'',
      ''Did you catch the broadcast?'', ''Keep the channel open.'']"

text \<open>The timer of demo mode fires; \<open>k\<close> is the index drawn for the response.\<close>

definition demoReply :: "nat \<Rightarrow> int \<Rightarrow> nat list \<Rightarrow> State \<Rightarrow> State" where
  "demoReply k now ds st =
     (let randomResponse = DEMO_RESPONSES ! (k mod length DEMO_RESPONSES)
      in snd (addMessage randomResponse ''Operator'' False False None now ds
                (st\<lparr>demoTimers := demoTimers st - 1\<rparr>)))"

definition mediaCaption :: "UploadData \<Rightarrow> string option \<Rightarrow> string" where
  "mediaCaption uploadData caption =
     (case caption of
        Some c \<Rightarrow> if c \<noteq> [] then c
                  else ''['' @ toUpperCase (u_messageType uploadData) @ ''] '' @ u_fileName uploadData
      | None \<Rightarrow> ''['' @ toUpperCase (u_messageType uploadData) @ ''] '' @ u_fileName uploadData)"

definition localMediaMessage :: "UploadData \<Rightarrow> string \<Rightarrow> string \<Rightarrow> string \<Rightarrow> int \<Rightarrow> string option \<Rightarrow> Message" where
  "localMediaMessage uploadData tempId messageText usr now replyToId =
     \<lparr>m_id = Some tempId, m_text = messageText, m_sender = Some usr, m_timestamp = now,
      m_isSystem = False, m_isMe = True,
      m_messageType = Some (u_messageType uploadData), m_mediaUrl = Some (u_mediaUrl uploadData),
      m_mediaType = Some (u_mediaType uploadData), m_mediaDuration = u_mediaDuration uploadData,
      m_fileName = Some (u_fileName uploadData), m_fileSize = Some (u_fileSize uploadData),
      m_updatedAt = None, m_isDeleted = None, m_replyToId = replyToId, m_chatId = None,
      m_reactions = None, m_isForwarded = None, m_forwardedFrom = None\<rparr>"

definition mediaPayload :: "UploadData \<Rightarrow> string \<Rightarrow> string \<Rightarrow> string \<Rightarrow> string option \<Rightarrow> string option \<Rightarrow> OutMessage" where
  "mediaPayload uploadData usr tempId messageText replyToId chatId =
     \<lparr>o_user = usr, o_username = Some usr, o_text = messageText, o_tempId = Some tempId,
      o_replyToId = replyToId, o_chatId = chatId,
      o_messageType = Some (u_messageType uploadData), o_mediaUrl = Some (u_mediaUrl uploadData),
      o_mediaType = Some (u_mediaType uploadData), o_fileName = Some (u_fileName uploadData),
      o_fileSize = Some (u_fileSize uploadData), o_mediaDuration = u_mediaDuration uploadData,
      o_isForwarded = None, o_forwardedFrom = None\<rparr>"

definition sendMediaMessage ::
  "UploadData \<Rightarrow> string option \<Rightarrow> string option \<Rightarrow> int \<Rightarrow> nat list \<Rightarrow> nat list \<Rightarrow> State \<Rightarrow> State" where
  "sendMediaMessage uploadData replyToId caption now ds ds' st =
     (let usr = senderOf (settings st);
          messageText = mediaCaption uploadData caption;
          tempId = randomId ds;
          localMessage = localMediaMessage uploadData tempId messageText usr now replyToId;
          st1 = st\<lparr>messages := messages st @ [localMessage]\<rparr>
      in if isDemoMode (settings st1) then st1
         else if socketConnected st1 then
           (let messageData = mediaPayload uploadData usr tempId messageText replyToId (orUndefined (activeChatId st1))
            in moveActiveChatToTop now (st1\<lparr>emitted := emitted st1 @ [EmitMessage messageData]\<rparr>))
         else snd (addMessage ''Media not sent: Disconnected'' ''System'' False True None now ds' st1))"

definition editMessage :: "string \<Rightarrow> string \<Rightarrow> int \<Rightarrow> State \<Rightarrow> State" where
  "editMessage i newText now st =
     (if \<not> socketConnected st then st
      else st\<lparr>messages := map (\<lambda>msg. if m_id msg = Some i
                                      then msg\<lparr>m_text := newText, m_updatedAt := Some now\<rparr>
                                      else msg) (messages st),
              emitted := emitted st @ [EmitEditMessage i newText]\<rparr>)"

definition deleteMessage :: "string \<Rightarrow> State \<Rightarrow> State" where
  "deleteMessage i st =
     (if \<not> socketConnected st then st
      else st\<lparr>messages := filter (\<lambda>msg. m_id msg \<noteq> Some i) (messages st),
              emitted := emitted st @ [EmitDeleteMessage i]\<rparr>)"

definition createChat :: "string \<Rightarrow> string option \<Rightarrow> State \<Rightarrow> State" where
  "createChat name description st =
     (if \<not> socketConnected st then st
      else st\<lparr>emitted := emitted st @ [EmitCreateChat name description]\<rparr>)"

text \<open>The callback of \<^verbatim>\<open>toggleReaction\<close> on the message it finds.\<close>

definition toggled :: "string \<Rightarrow> string \<Rightarrow> Message \<Rightarrow> Message" where
  "toggled usr emoji msg =
     (let rs = (case m_reactions msg of None \<Rightarrow> [] | Some r \<Rightarrow> r);
          currentReactors = (case map_of rs emoji of None \<Rightarrow> [] | Some us \<Rightarrow> us);
          newReactors = (if usr \<in> set currentReactors
                         then filter (\<lambda>u. u \<noteq> usr) currentReactors
                         else currentReactors @ [usr]);
          rs' = (if newReactors = [] then AList.delete emoji rs
                 else AList.update emoji newReactors rs)
      in msg\<lparr>m_reactions := Some rs'\<rparr>)"

definition toggleReaction :: "string \<Rightarrow> string \<Rightarrow> State \<Rightarrow> State" where
  "toggleReaction messageId emoji st =
     (if \<not> socketConnected st then st
      else
        (let usr = username (settings st) in
         st\<lparr>messages := map (\<lambda>msg. if m_id msg = Some messageId then toggled usr emoji msg else msg)
                            (messages st),
            emitted := emitted st @ [EmitToggleReaction messageId emoji usr]\<rparr>))"

definition forwardPayload :: "string \<Rightarrow> Message \<Rightarrow> string \<Rightarrow> OutMessage" where
  "forwardPayload usr message targetChatId =
     \<lparr>o_user = usr, o_username = Some usr, o_text = m_text message, o_tempId = None,
      o_replyToId = None, o_chatId = Some targetChatId,
      o_messageType = m_messageType message, o_mediaUrl = m_mediaUrl message,
      o_mediaType = m_mediaType message, o_fileName = m_fileName message,
      o_fileSize = m_fileSize message, o_mediaDuration = m_mediaDuration message,
      o_isForwarded = Some True, o_forwardedFrom = m_sender message\<rparr>"

definition forwardMessage :: "Message \<Rightarrow> string \<Rightarrow> State \<Rightarrow> State" where
  "forwardMessage message targetChatId st =
     (if \<not> socketConnected st then st
      else st\<lparr>emitted := emitted st @ [EmitMessage (forwardPayload (username (settings st)) message targetChatId)]\<rparr>)"

subsection \<open>The hook's first state\<close>

text \<open>The initial values of the hook's \<^verbatim>\<open>useState\<close> cells, before the connection effect has run.\<close>

definition initialState :: "UserSettings \<Rightarrow> State" where
  "initialState s =
     \<lparr>messages = [], chats = [], activeChatId = None, activeChatIdRef = None,
      status = DISCONNECTED, socket = None, settings = s, emitted = [], demoTimers = 0,
      fetches = []\<rparr>"

subsection \<open>Notions used by the properties\<close>

text \<open>
  The value of the condition in the callback of \<^verbatim>\<open>prev.map\<close>, where it does not throw: the
  token test, or the fallback test (own echo, same body, no hyphen in the id).
\<close>

definition looksLocal :: "Message \<Rightarrow> bool" where
  "looksLocal msg = (case m_id msg of None \<Rightarrow> False | Some i \<Rightarrow> \<not> includesHyphen i)"


text \<open>
  The window in the words of the specification: a time within the ten seconds that end at
  the current time.
\<close>

definition inTrailingWindow :: "int \<Rightarrow> int \<Rightarrow> bool" where
  "inTrailingWindow now t = (now - 10000 < t \<and> t \<le> now)"

text \<open>The comparison of names the handler makes: trimmed and in lower case.\<close>

definition sameName :: "string \<Rightarrow> string \<Rightarrow> bool" where
  "sameName a b = (toLowerCase (trim a) = toLowerCase (trim b))"

text \<open>
  A directory \<open>new\<close> is \<open>old\<close> with the conversation \<open>cid\<close> moved to the front: \<open>cid\<close> comes
  first and once, with its last activity set to \<open>ts\<close>, and the other conversations follow as
  they were, each in its place.
\<close>

definition movedToFront :: "string \<Rightarrow> int \<Rightarrow> Chat list \<Rightarrow> Chat list \<Rightarrow> bool" where
  "movedToFront cid ts old new =
     (case find (\<lambda>c. c_id c = cid) old of
        None \<Rightarrow> False
      | Some c \<Rightarrow>
          new = c\<lparr>c_lastMessageAt := Some (TimeNumber ts)\<rparr> # filter (\<lambda>x. c_id x \<noteq> cid) old \<and>
          map c_id new = cid # remove1 cid (map c_id old) \<and>
          distinct (map c_id new))"

text \<open>A log ends in a system notice with the text \<open>txt\<close>.\<close>

definition endsInNotice :: "string \<Rightarrow> Message list \<Rightarrow> bool" where
  "endsInNotice txt ms =
     (case rev ms of
        [] \<Rightarrow> False
      | msg # _ \<Rightarrow> m_isSystem msg \<and> m_text msg = txt \<and> m_sender msg = Some ''System'')"

subsection \<open>Sample states and events\<close>

definition alice :: UserSettings where
  "alice = \<lparr>username = ''Alice'', serverUrl = ''http://localhost:3000'', isDemoMode = False\<rparr>"

definition chatNamed :: "string \<Rightarrow> Chat" where
  "chatNamed cid =
     \<lparr>c_id = cid, c_name = cid, c_description = None, c_lastMessageAt = None,
      c_createdAt = TimeNumber 0\<rparr>"

text \<open>Alice, connected, with the conversations \<open>c1\<close> and \<open>c2\<close> in her directory and none chosen.\<close>

definition aliceOnline :: State where
  "aliceOnline =
     (initialState alice)\<lparr>status := CONNECTED, socket := Some True,
                           chats := [chatNamed ''c1'', chatNamed ''c2'']\<rparr>"

text \<open>Alice online, with the conversation \<open>cid\<close> chosen and the log \<open>ms\<close>.\<close>

definition aliceIn :: "string \<Rightarrow> Message list \<Rightarrow> State" where
  "aliceIn cid ms = aliceOnline\<lparr>activeChatId := Some cid, activeChatIdRef := Some cid, messages := ms\<rparr>"

text \<open>Alice, with no socket.\<close>

definition aliceOffline :: State where
  "aliceOffline = (initialState alice)\<lparr>chats := [chatNamed ''c1'', chatNamed ''c2'']\<rparr>"

text \<open>A \<^verbatim>\<open>message\<close> event with an id, a token, a sender, a body, a time and a conversation.\<close>

definition messageEvent ::
  "string option \<Rightarrow> string option \<Rightarrow> string option \<Rightarrow> string \<Rightarrow> int option \<Rightarrow> string option \<Rightarrow> MessageData" where
  "messageEvent i tempId usr txt createdAt chatId =
     \<lparr>d_id = i, d_tempId = tempId, d_user = usr, d_username = None, d_text = txt,
      d_createdAt = createdAt, d_messageType = None, d_mediaUrl = None, d_mediaType = None,
      d_mediaDuration = None, d_fileName = None, d_fileSize = None, d_replyToId = None,
      d_chatId = chatId, d_isForwarded = None, d_forwardedFrom = None\<rparr>"

definition historyRow :: "string \<Rightarrow> string \<Rightarrow> string \<Rightarrow> int \<Rightarrow> string \<Rightarrow> DbMessage" where
  "historyRow i usr txt createdAt chatId =
     \<lparr>db_id = i, db_username = usr, db_content = txt, db_createdAt = createdAt,
      db_messageType = ''text'', db_mediaUrl = None, db_mediaType = None,
      db_mediaDuration = None, db_fileName = None, db_fileSize = None, db_replyToId = None,
      db_chatId = Some chatId, db_reactions = None, db_isForwarded = None,
      db_forwardedFrom = None\<rparr>"

definition photo :: UploadData where
  "photo =
     \<lparr>u_messageType = ''image'', u_mediaUrl = ''/uploads/a.png'', u_mediaType = ''image/png'',
      u_fileName = ''a.png'', u_fileSize = 1024, u_mediaDuration = None\<rparr>"

section \<open>Properties\<close>

subsection \<open>The reconciliation pass\<close>

lemma syncAll_length: "syncAll d f ms = Inr (b, ms') \<Longrightarrow> length ms' = length ms"
  by (induction ms arbitrary: b ms') (auto split: sum.splits prod.splits)

lemma syncOne_unmatched: "syncOne d f m = Inr (False, m') \<Longrightarrow> m' = m"
  by (auto simp: syncOne_def split: if_splits option.splits)

lemma syncAll_unmatched: "syncAll d f ms = Inr (False, ms') \<Longrightarrow> ms' = ms"
  by (induction ms arbitrary: ms') (auto split: sum.splits prod.splits dest: syncOne_unmatched)

lemma syncAll_append:
  "syncAll d f (xs @ ys) =
     (case syncAll d f xs of
        Inl e \<Rightarrow> Inl e
      | Inr (b, xs') \<Rightarrow>
          (case syncAll d f ys of Inl e \<Rightarrow> Inl e | Inr (c, ys') \<Rightarrow> Inr (b \<or> c, xs' @ ys')))"
  by (induction xs) (auto split: sum.splits prod.splits)



lemma syncAll_nth:
  "syncAll d f ms = Inr (b, ms') \<Longrightarrow> k < length ms \<Longrightarrow>
   syncOne d f (ms ! k) = Inr (False, ms ! k) \<Longrightarrow> ms' ! k = ms ! k"
proof (induction ms arbitrary: b ms' k)
  case Nil
  then show ?case by simp
next
  case (Cons a ms)
  then show ?case by (cases k) (auto split: sum.splits prod.splits)
qed

subsection \<open>The remote insert and the handler, by cases\<close>

lemma find_None_list_ex: "(find P xs = None) = (\<not> list_ex P xs)"
  by (auto simp: find_None_iff list_ex_iff)

lemma remoteInsert_known_id:
  "truthy (d_id data) \<Longrightarrow> list_ex (\<lambda>m. m_id m = d_id data) (messages st) \<Longrightarrow>
   remoteInsert data now ds st = st"
  by (simp add: remoteInsert_def)

text \<open>The remote insert either leaves the state as it is or appends one message.\<close>

lemma remoteInsert_cases:
  "remoteInsert data now ds st = st \<or>
   (\<not> (truthy (d_id data) \<and> list_ex (\<lambda>m. m_id m = d_id data) (messages st)) \<and>
    find (isDuplicateOf data now) (messages st) = None \<and>
    \<not> forOtherChat data (activeChatIdRef st) \<and>
    remoteInsert data now ds st =
      st\<lparr>chats := (case d_chatId data of
                     None \<Rightarrow> chats st
                   | Some cid \<Rightarrow>
                       if cid = [] then chats st
                       else moveChatToTop cid (m_timestamp (remoteMessage data now ds)) (chats st)),
         messages := messages st @ [remoteMessage data now ds]\<rparr>)"
  by (auto simp: remoteInsert_def Let_def split: option.splits)

text \<open>An entry the pass has rewritten has the id of the event.\<close>

lemma syncOne_matched_id: "syncOne d f m = Inr (True, m') \<Longrightarrow> m_id m' = d_id d"
  by (auto simp: syncOne_def synced_def split: if_splits option.splits)

lemma syncAll_matched_id:
  "syncAll d f ms = Inr (True, ms') \<Longrightarrow> list_ex (\<lambda>m. m_id m = d_id d) ms'"
proof (induction ms arbitrary: ms')
  case Nil
  then show ?case by simp
next
  case (Cons a ms)
  then show ?case
    by (auto split: sum.splits prod.splits dest: syncOne_matched_id)
qed

text \<open>
  A run of the handler that returns is the remote insert on a log of the same length: the
  log as it was when the pass was not queued, and the result of the pass otherwise.
\<close>

lemma onMessage_shape:
  assumes "onMessage data now ds st = Inr st'"
  shows "st' = st \<or>
         (\<exists>prev'. length prev' = length (messages st) \<and>
            st' = remoteInsert data now ds (st\<lparr>messages := prev'\<rparr>) \<and>
            (\<not> truthy (d_tempId data) \<and> \<not> isFromMe (settings st) data \<and> prev' = messages st \<or>
             (\<exists>b. syncAll data (isFromMe (settings st) data) (messages st) = Inr (b, prev'))))"
proof (cases "forOtherChat data (activeChatIdRef st)")
  case True
  then show ?thesis using assms by (simp add: onMessage_def Let_def)
next
  case False
  show ?thesis
  proof (cases "truthy (d_tempId data) \<or> isFromMe (settings st) data")
    case enters: True
    then obtain b prev' where
      s: "syncAll data (isFromMe (settings st) data) (messages st) = Inr (b, prev')"
      using assms False by (auto simp: onMessage_def Let_def split: sum.splits)
    then have "st' = remoteInsert data now ds (st\<lparr>messages := prev'\<rparr>)"
      using assms False enters by (auto simp: onMessage_def Let_def)
    then show ?thesis using s syncAll_length[OF s] by blast
  next
    case skips: False
    then have "st' = remoteInsert data now ds (st\<lparr>messages := messages st\<rparr>)"
      using assms False by (auto simp: onMessage_def Let_def)
    then show ?thesis using skips by blast
  qed
qed

text \<open>
  When the run has made the log longer, the remote insert has appended the new message and
  reordered the directory. If the event has an id, the pass has rewritten nothing.
\<close>

lemma onMessage_grew:
  assumes r: "onMessage data now ds st = Inr st'"
    and g: "length (messages st) < length (messages st')"
  shows "\<exists>prev'. length prev' = length (messages st) \<and>
           \<not> forOtherChat data (activeChatIdRef st) \<and>
           \<not> (truthy (d_id data) \<and> list_ex (\<lambda>m. m_id m = d_id data) prev') \<and>
           st' = st\<lparr>chats := (case d_chatId data of
                                None \<Rightarrow> chats st
                              | Some cid \<Rightarrow>
                                  if cid = [] then chats st
                                  else moveChatToTop cid (m_timestamp (remoteMessage data now ds)) (chats st)),
                    messages := prev' @ [remoteMessage data now ds]\<rparr> \<and>
           (\<not> truthy (d_tempId data) \<and> \<not> isFromMe (settings st) data \<and> prev' = messages st \<or>
            (\<exists>b. syncAll data (isFromMe (settings st) data) (messages st) = Inr (b, prev')) \<and>
            (truthy (d_id data) \<longrightarrow> prev' = messages st))"
proof -
  from onMessage_shape[OF r] g obtain prev' where
    l: "length prev' = length (messages st)"
    and s: "st' = remoteInsert data now ds (st\<lparr>messages := prev'\<rparr>)"
    and p: "\<not> truthy (d_tempId data) \<and> \<not> isFromMe (settings st) data \<and> prev' = messages st \<or>
            (\<exists>b. syncAll data (isFromMe (settings st) data) (messages st) = Inr (b, prev'))"
    by auto
  let ?s = "st\<lparr>messages := prev'\<rparr>"
  have ne: "remoteInsert data now ds ?s \<noteq> ?s"
    using s g l by auto
  from remoteInsert_cases[of data now ds ?s] ne
  have fresh: "\<not> (truthy (d_id data) \<and> list_ex (\<lambda>m. m_id m = d_id data) prev')"
    and here: "\<not> forOtherChat data (activeChatIdRef st)"
    and eq: "remoteInsert data now ds ?s =
      ?s\<lparr>chats := (case d_chatId data of
                     None \<Rightarrow> chats ?s
                   | Some cid \<Rightarrow>
                       if cid = [] then chats ?s
                       else moveChatToTop cid (m_timestamp (remoteMessage data now ds)) (chats ?s)),
         messages := messages ?s @ [remoteMessage data now ds]\<rparr>"
    by auto
  have st': "st' = st\<lparr>chats := (case d_chatId data of
                                None \<Rightarrow> chats st
                              | Some cid \<Rightarrow>
                                  if cid = [] then chats st
                                  else moveChatToTop cid (m_timestamp (remoteMessage data now ds)) (chats st)),
                    messages := prev' @ [remoteMessage data now ds]\<rparr>"
    using s eq by (simp split: option.splits)
  have same: "prev' = messages st"
    if t: "truthy (d_id data)" and b: "syncAll data (isFromMe (settings st) data) (messages st) = Inr (b, prev')"
    for b
  proof (cases b)
    case True
    then show ?thesis using syncAll_matched_id[of data _ "messages st" prev'] b t fresh by auto
  next
    case False
    then show ?thesis using b by (auto dest: syncAll_unmatched)
  qed
  show ?thesis using l here fresh st' p same by blast
qed

text \<open>An entry with a hyphen in its id, other than the token's, keeps its place and its value.\<close>

lemma onMessage_nth:
  assumes r: "onMessage data now ds st = Inr st'" and k: "k < length (messages st)"
    and m: "m_id (messages st ! k) = Some i" and h: "includesHyphen i"
    and t: "d_tempId data \<noteq> Some i"
  shows "messages st' ! k = messages st ! k"
proof -
  have one: "syncOne data f (messages st ! k) = Inr (False, messages st ! k)" for f
    using m h t by (auto simp: syncOne_def)
  have ri: "messages (remoteInsert data now ds s) ! k = messages s ! k"
    if "k < length (messages s)" for s
    using remoteInsert_cases[of data now ds s] that by (auto simp: nth_append)
  from onMessage_shape[OF r] consider "st' = st"
    | prev' where "length prev' = length (messages st)"
        "st' = remoteInsert data now ds (st\<lparr>messages := prev'\<rparr>)"
        "\<not> truthy (d_tempId data) \<and> \<not> isFromMe (settings st) data \<and> prev' = messages st \<or>
         (\<exists>b. syncAll data (isFromMe (settings st) data) (messages st) = Inr (b, prev'))"
    by blast
  then show ?thesis
  proof cases
    case 1
    then show ?thesis by simp
  next
    case (2 prev')
    have p: "prev' ! k = messages st ! k"
      using 2(3) syncAll_nth[OF _ k one] by auto
    show ?thesis using 2(1,2) ri[of "st\<lparr>messages := prev'\<rparr>"] k p by simp
  qed
qed



subsection \<open>Local ids\<close>

lemma randomId_chars: "set (randomId ds) \<subseteq> set ''0123456789abcdefghijklmnopqrstuvwxyz''"
proof -
  have d: "digit36 d \<in> set ''0123456789abcdefghijklmnopqrstuvwxyz''" for d
    unfolding digit36_def by (rule nth_mem) simp
  have "set (randomId ds) \<subseteq> set (drop 2 (toString36 ds))"
    by (simp add: randomId_def substring_def set_drop_subset_set_drop)
  also have "\<dots> \<subseteq> set ''0123456789abcdefghijklmnopqrstuvwxyz''"
    using d by (auto simp: toString36_def)
  finally show ?thesis .
qed

lemma randomId_no_hyphen: "\<not> includesHyphen (randomId ds)"
  using randomId_chars[of ds] by (auto simp: includesHyphen_def)

lemma addMessage_eq:
  "addMessage body sndr isMe isSystem r now ds st =
     (randomId ds,
      st\<lparr>messages := messages st @ [newLocalMessage (randomId ds) body sndr now isMe isSystem r]\<rparr>)"
  by (simp add: addMessage_def Let_def)

lemma looksLocal_new: "looksLocal (newLocalMessage (randomId ds) body sndr now isMe isSystem r)"
  by (simp add: looksLocal_def newLocalMessage_def randomId_no_hyphen)

lemma looksLocal_media: "looksLocal (localMediaMessage u (randomId ds) body usr now r)"
  by (simp add: looksLocal_def localMediaMessage_def randomId_no_hyphen)

text \<open>What a text send and a media send add to the log.\<close>

lemma sendMessage_messages:
  "messages (sendMessage body r now ds ds' st) = messages st \<or>
   messages (sendMessage body r now ds ds' st) =
     messages st @ [newLocalMessage (randomId ds) (trim body) (senderOf (settings st)) now True False r] \<or>
   (\<exists>t. messages (sendMessage body r now ds ds' st) =
     messages st @ [newLocalMessage (randomId ds) (trim body) (senderOf (settings st)) now True False r,
                    newLocalMessage (randomId ds') t ''System'' now False True None])"
  by (auto simp: sendMessage_def Let_def addMessage_eq moveActiveChatToTop_def split: option.splits)

lemma sendMediaMessage_messages:
  "messages (sendMediaMessage u r c now ds ds' st) =
     messages st @ [localMediaMessage u (randomId ds) (mediaCaption u c) (senderOf (settings st)) now r] \<or>
   messages (sendMediaMessage u r c now ds ds' st) =
     messages st @ [localMediaMessage u (randomId ds) (mediaCaption u c) (senderOf (settings st)) now r,
                    newLocalMessage (randomId ds') ''Media not sent: Disconnected'' ''System'' now False True None]"
  by (auto simp: sendMediaMessage_def Let_def addMessage_eq moveActiveChatToTop_def split: option.splits)

subsection \<open>Optimistic reconciliation\<close>

text \<open>
  Claim C1 does not hold of the code, in two ways.

  Alice has sent \<open>hi\<close> twice; the log holds the optimistic \<open>tmp1\<close> and \<open>tmp2\<close>. The echo of
  the first arrives, with the token \<open>tmp1\<close> and the id \<open>srv-42\<close>. The pass rewrites the entry
  of the token and, by its fallback test (own echo, same body, no hyphen in the id), the
  second entry too: both have the id \<open>srv-42\<close>. The echo of the second, with the token
  \<open>tmp2\<close> and the id \<open>srv-43\<close>, then finds no entry and is rejected as a duplicate by
  content, so that no entry ever has the id \<open>srv-43\<close>.

  Alice has sent \<open>hi\<close> once; the echo arrives nineteen seconds later with the token
  \<open>tmp1\<close> and without an id. The handler reads \<^verbatim>\<open>matched\<close> before the pass has run and
  queues the remote insert as well: the entry of the token is rewritten (its id is now
  undefined) and a second entry for the same message is appended. The log has two entries.
\<close>

theorem token_echo_not_single:
  "onMessage (messageEvent (Some ''srv-42'') (Some ''tmp1'') (Some ''Alice'') ''hi'' (Some 2000) (Some ''c1'')) 3000 []
       (aliceIn ''c1'' [newLocalMessage ''tmp1'' ''hi'' ''Alice'' 1000 True False None,
                        newLocalMessage ''tmp2'' ''hi'' ''Alice'' 1500 True False None])
     = Inr (aliceIn ''c1'' [newLocalMessage ''srv-42'' ''hi'' ''Alice'' 2000 True False None,
                            newLocalMessage ''srv-42'' ''hi'' ''Alice'' 2000 True False None]) \<and>
   onMessage (messageEvent (Some ''srv-43'') (Some ''tmp2'') (Some ''Alice'') ''hi'' (Some 2500) (Some ''c1'')) 3500 []
       (aliceIn ''c1'' [newLocalMessage ''srv-42'' ''hi'' ''Alice'' 2000 True False None,
                        newLocalMessage ''srv-42'' ''hi'' ''Alice'' 2000 True False None])
     = Inr (aliceIn ''c1'' [newLocalMessage ''srv-42'' ''hi'' ''Alice'' 2000 True False None,
                            newLocalMessage ''srv-42'' ''hi'' ''Alice'' 2000 True False None]) \<and>
   onMessage (messageEvent None (Some ''tmp1'') (Some ''Alice'') ''hi'' None (Some ''c1'')) 20000 [1, 2, 3, 4, 5, 6, 7, 8]
       (aliceIn ''c1'' [newLocalMessage ''tmp1'' ''hi'' ''Alice'' 1000 True False None])
     = Inr (remoteInsert (messageEvent None (Some ''tmp1'') (Some ''Alice'') ''hi'' None (Some ''c1'')) 20000
              [1, 2, 3, 4, 5, 6, 7, 8]
              (aliceIn ''c1'' [(newLocalMessage ''tmp1'' ''hi'' ''Alice'' 1000 True False None)\<lparr>m_id := None\<rparr>])) \<and>
   map (\<lambda>m. (m_id m, m_text m, m_sender m))
     (messages (remoteInsert (messageEvent None (Some ''tmp1'') (Some ''Alice'') ''hi'' None (Some ''c1'')) 20000
              [1, 2, 3, 4, 5, 6, 7, 8]
              (aliceIn ''c1'' [(newLocalMessage ''tmp1'' ''hi'' ''Alice'' 1000 True False None)\<lparr>m_id := None\<rparr>])))
     = [(None, ''hi'', Some ''Alice''), (Some ''678'', ''hi'', Some ''Alice'')]"
  by code_simp

subsection \<open>Idempotent remote delivery\<close>

text \<open>
  Claim C3. Let a \<^verbatim>\<open>message\<close> event carry an id (a string that is not empty). If the id
  occurs in the log, the remote insert returns the state, and so the log, unchanged. And if a
  run of the handler on the event has appended to the log, the new log has exactly one entry
  with that id, and a second run on the same event, at any later time, returns that state
  unchanged.
\<close>

theorem remote_delivery_idempotent:
  assumes i: "d_id data = Some i" and ne: "i \<noteq> []"
  shows "(list_ex (\<lambda>m. m_id m = Some i) (messages st) \<longrightarrow> remoteInsert data now ds st = st) \<and>
         (onMessage data now ds st = Inr st1 \<and> length (messages st) < length (messages st1) \<longrightarrow>
            length (filter (\<lambda>m. m_id m = Some i) (messages st1)) = 1 \<and>
            onMessage data now' ds' st1 = Inr st1)"
proof (intro conjI impI)
  have t: "truthy (d_id data)" using i ne by (simp add: truthy_def)
  show "remoteInsert data now ds st = st" if "list_ex (\<lambda>m. m_id m = Some i) (messages st)"
    using that t i by (simp add: remoteInsert_known_id)
  assume a: "onMessage data now ds st = Inr st1 \<and> length (messages st) < length (messages st1)"
  let ?new = "remoteMessage data now ds"
  let ?f = "isFromMe (settings st) data"
  from a have r: "onMessage data now ds st = Inr st1"
    and g: "length (messages st) < length (messages st1)" by auto
  from onMessage_grew[OF r g] t obtain prev' where
    here: "\<not> forOtherChat data (activeChatIdRef st)"
    and fresh': "\<not> list_ex (\<lambda>m. m_id m = d_id data) prev'"
    and eq': "st1 = st\<lparr>chats := (case d_chatId data of
                     None \<Rightarrow> chats st
                   | Some cid \<Rightarrow>
                       if cid = [] then chats st
                       else moveChatToTop cid (m_timestamp ?new) (chats st)),
         messages := prev' @ [?new]\<rparr>"
    and p: "\<not> truthy (d_tempId data) \<and> \<not> ?f \<and> prev' = messages st \<or>
            (\<exists>b. syncAll data ?f (messages st) = Inr (b, prev')) \<and> prev' = messages st"
    by auto
  have same_log: "prev' = messages st" using p by auto
  have fresh: "\<not> list_ex (\<lambda>m. m_id m = d_id data) (messages st)"
    using fresh' same_log by simp
  have eq: "st1 = st\<lparr>chats := (case d_chatId data of
                     None \<Rightarrow> chats st
                   | Some cid \<Rightarrow>
                       if cid = [] then chats st
                       else moveChatToTop cid (m_timestamp ?new) (chats st)),
         messages := messages st @ [?new]\<rparr>"
    using eq' same_log by simp
  have ms: "messages st1 = messages st @ [?new]" by (subst eq, simp)
  have sy: "\<not> truthy (d_tempId data) \<and> \<not> ?f \<or> syncAll data ?f (messages st) = Inr (False, messages st)"
  proof -
    have "b = False" if "syncAll data ?f (messages st) = Inr (b, messages st)" for b
      using that syncAll_matched_id[of data ?f "messages st" "messages st"] fresh by (cases b) auto
    then show ?thesis using p same_log by auto
  qed
  have idn: "m_id ?new = Some i" using t i by (simp add: remoteMessage_def)
  have "filter (\<lambda>m. m_id m = Some i) (messages st) = []"
    using fresh i by (auto simp: list_ex_iff filter_empty_conv)
  then show "length (filter (\<lambda>m. m_id m = Some i) (messages st1)) = 1"
    using ms idn by simp
  have same: "settings st1 = settings st" "activeChatIdRef st1 = activeChatIdRef st"
    by (subst eq, simp)+
  have known: "list_ex (\<lambda>m. m_id m = d_id data) (messages st1)"
    using ms idn i by (simp add: list_ex_iff)
  have ri: "remoteInsert data now' ds' st1 = st1"
    using t known by (rule remoteInsert_known_id)
  have syn: "synced data ?new = ?new"
    using i t by (simp add: synced_def remoteMessage_def split: option.splits)
  show "onMessage data now' ds' st1 = Inr st1"
  proof (cases "truthy (d_tempId data) \<or> ?f")
    case False
    then show ?thesis using here same ri by (simp add: onMessage_def Let_def)
  next
    case True
    then have s0: "syncAll data ?f (messages st) = Inr (False, messages st)" using sy by auto
    have "\<exists>b. syncOne data ?f ?new = Inr (b, ?new)"
      using idn syn by (auto simp: syncOne_def)
    then obtain b where "syncOne data ?f ?new = Inr (b, ?new)" ..
    then have "syncAll data ?f (messages st1) = Inr (b, messages st1)"
      using s0 ms by (simp add: syncAll_append)
    then show ?thesis using True here same ri
      by (simp add: onMessage_def Let_def)
  qed
qed

text \<open>Bob's \<open>srv1\<close> is delivered to Alice twice.\<close>

theorem remote_delivery_idempotent_witness:
  "d_id (messageEvent (Some ''srv1'') None (Some ''Bob'') ''hey'' None (Some ''c1'')) = Some ''srv1'' \<and>
   onMessage (messageEvent (Some ''srv1'') None (Some ''Bob'') ''hey'' None (Some ''c1'')) 0 [] (aliceIn ''c1'' [])
     = Inr (remoteInsert (messageEvent (Some ''srv1'') None (Some ''Bob'') ''hey'' None (Some ''c1'')) 0 []
              (aliceIn ''c1'' [])) \<and>
   length (messages (aliceIn ''c1'' []))
     < length (messages (remoteInsert (messageEvent (Some ''srv1'') None (Some ''Bob'') ''hey'' None (Some ''c1''))
                           0 [] (aliceIn ''c1'' []))) \<and>
   length (filter (\<lambda>m. m_id m = Some ''srv1'')
            (messages (remoteInsert (messageEvent (Some ''srv1'') None (Some ''Bob'') ''hey'' None (Some ''c1''))
                         0 [] (aliceIn ''c1'' [])))) = 1 \<and>
   onMessage (messageEvent (Some ''srv1'') None (Some ''Bob'') ''hey'' None (Some ''c1'')) 9 [1]
       (remoteInsert (messageEvent (Some ''srv1'') None (Some ''Bob'') ''hey'' None (Some ''c1'')) 0 []
          (aliceIn ''c1'' []))
     = Inr (remoteInsert (messageEvent (Some ''srv1'') None (Some ''Bob'') ''hey'' None (Some ''c1'')) 0 []
              (aliceIn ''c1'' [])) \<and>
   remoteInsert (messageEvent (Some ''srv1'') None (Some ''Bob'') ''hey'' None (Some ''c1'')) 9 [1]
       (remoteInsert (messageEvent (Some ''srv1'') None (Some ''Bob'') ''hey'' None (Some ''c1'')) 0 []
          (aliceIn ''c1'' []))
     = remoteInsert (messageEvent (Some ''srv1'') None (Some ''Bob'') ''hey'' None (Some ''c1'')) 0 []
         (aliceIn ''c1'' [])"
proof -
  let ?ev = "messageEvent (Some ''srv1'') None (Some ''Bob'') ''hey'' None (Some ''c1'')"
  let ?st = "aliceIn ''c1'' []"
  let ?st1 = "remoteInsert ?ev 0 [] ?st"
  have h1: "d_id ?ev = Some ''srv1''" by (simp add: messageEvent_def)
  have h2: "''srv1'' \<noteq> []" by simp
  have first: "onMessage ?ev 0 [] ?st = Inr ?st1" by code_simp
  have grew: "length (messages ?st) < length (messages ?st1)" by code_simp
  have known: "list_ex (\<lambda>m. m_id m = Some ''srv1'') (messages ?st1)" by code_simp
  from remote_delivery_idempotent[OF h1 h2, of ?st 0 "[]" ?st1 9 "[1]"] first grew
  have "length (filter (\<lambda>m. m_id m = Some ''srv1'') (messages ?st1)) = 1 \<and>
        onMessage ?ev 9 [1] ?st1 = Inr ?st1"
    by blast
  moreover from remote_delivery_idempotent[OF h1 h2, of ?st1 9 "[1]"] known
  have "remoteInsert ?ev 9 [1] ?st1 = ?st1" by blast
  ultimately show ?thesis using h1 first grew by blast
qed

subsection \<open>Conversation isolation\<close>

text \<open>
  Claim C4. A \<^verbatim>\<open>message\<close> event that carries a conversation id other than that of the
  active conversation (both ids being strings that are not empty) leaves the whole state as
  it is, and with it the log of the active conversation. The only other inbound event whose
  payload names a conversation, \<^verbatim>\<open>chatCreated\<close>, changes the directory and not the log.
  (The payloads of \<^verbatim>\<open>messageUpdated\<close>, \<^verbatim>\<open>messageDeleted\<close> and \<^verbatim>\<open>reactionUpdated\<close> have
  no conversation id.)
\<close>

theorem conversation_isolation:
  assumes "d_chatId data = Some b" and "b \<noteq> []"
    and "activeChatIdRef st = Some a" and "a \<noteq> []" and "b \<noteq> a"
  shows "onMessage data now ds st = Inr st \<and> messages (onChatCreated newChat st) = messages st"
  using assms by (simp add: onMessage_def forOtherChat_def truthy_def onChatCreated_def)

text \<open>The scenario of the specification: Bob's \<open>srv1\<close> for \<open>c1\<close> while Alice is in \<open>c2\<close>.\<close>

theorem conversation_isolation_witness:
  "d_chatId (messageEvent (Some ''srv1'') None (Some ''Bob'') ''hey'' None (Some ''c1'')) = Some ''c1'' \<and>
   activeChatIdRef (aliceIn ''c2'' [newLocalMessage ''tmp1'' ''hi'' ''Alice'' 1000 True False None]) = Some ''c2'' \<and>
   onMessage (messageEvent (Some ''srv1'') None (Some ''Bob'') ''hey'' None (Some ''c1'')) 3000 []
       (aliceIn ''c2'' [newLocalMessage ''tmp1'' ''hi'' ''Alice'' 1000 True False None])
     = Inr (aliceIn ''c2'' [newLocalMessage ''tmp1'' ''hi'' ''Alice'' 1000 True False None])"
proof -
  let ?ev = "messageEvent (Some ''srv1'') None (Some ''Bob'') ''hey'' None (Some ''c1'')"
  let ?st = "aliceIn ''c2'' [newLocalMessage ''tmp1'' ''hi'' ''Alice'' 1000 True False None]"
  have h1: "d_chatId ?ev = Some ''c1''" by (simp add: messageEvent_def)
  have h2: "activeChatIdRef ?st = Some ''c2''" by (simp add: aliceIn_def)
  have "onMessage ?ev 3000 [] ?st = Inr ?st"
    using conversation_isolation[OF h1 _ h2, of 3000 "[]"] by simp
  with h1 h2 show ?thesis by simp
qed

subsection \<open>The content-based duplicate check\<close>

text \<open>
  Claim C5, as stated, fails: the test of the code has a lower end only. Bob's \<open>hey\<close> in the
  log has the server's time 3605000, an hour ahead of the client's clock, which reads 5000.
  The entry is not within the ten seconds that end at the current time, the id of the event
  is not in the log, and still the same body from Bob is rejected: the log is unchanged.
\<close>

theorem content_duplicate_window_counterexample:
  "\<not> list_ex (\<lambda>m. m_id m = d_id (messageEvent (Some ''srv-2'') None (Some ''Bob'') ''hey'' None (Some ''c1'')))
       (messages (aliceIn ''c1'' [remoteMessage (messageEvent (Some ''srv-1'') None (Some ''Bob'') ''hey'' (Some 3605000) (Some ''c1'')) 5000 []])) \<and>
   \<not> list_ex (\<lambda>m. \<not> m_isSystem m \<and>
                   m_text m = d_text (messageEvent (Some ''srv-2'') None (Some ''Bob'') ''hey'' None (Some ''c1'')) \<and>
                   m_sender m = Some ''Bob'' \<and>
                   inTrailingWindow 5000 (m_timestamp m))
       (messages (aliceIn ''c1'' [remoteMessage (messageEvent (Some ''srv-1'') None (Some ''Bob'') ''hey'' (Some 3605000) (Some ''c1'')) 5000 []])) \<and>
   remoteInsert (messageEvent (Some ''srv-2'') None (Some ''Bob'') ''hey'' None (Some ''c1'')) 5000 []
       (aliceIn ''c1'' [remoteMessage (messageEvent (Some ''srv-1'') None (Some ''Bob'') ''hey'' (Some 3605000) (Some ''c1'')) 5000 []])
     = aliceIn ''c1'' [remoteMessage (messageEvent (Some ''srv-1'') None (Some ''Bob'') ''hey'' (Some 3605000) (Some ''c1'')) 5000 []] \<and>
   onMessage (messageEvent (Some ''srv-2'') None (Some ''Bob'') ''hey'' None (Some ''c1'')) 5000 []
       (aliceIn ''c1'' [remoteMessage (messageEvent (Some ''srv-1'') None (Some ''Bob'') ''hey'' (Some 3605000) (Some ''c1'')) 5000 []])
     = Inr (aliceIn ''c1'' [remoteMessage (messageEvent (Some ''srv-1'') None (Some ''Bob'') ''hey'' (Some 3605000) (Some ''c1'')) 5000 []])"
  by code_simp

text \<open>
  Claim C5, amended. Take the remote insert of an event whose id is not in the log (or that
  has none) and that is not for another conversation than the active one, as is every event
  the handler passes on. If the log has an entry that is no system entry, has the event's
  body and the event's sender (\<^verbatim>\<open>user\<close>, else \<^verbatim>\<open>username\<close>) and has a time later than ten
  seconds before the current time (\<open>now - 10000 < timestamp\<close>, with no upper end: an entry
  stamped after the current time counts), the state is unchanged. Otherwise the new message
  is appended to the log.
\<close>

theorem content_duplicate_window:
  assumes fresh: "\<not> (truthy (d_id data) \<and> list_ex (\<lambda>m. m_id m = d_id data) (messages st))"
    and here: "\<not> forOtherChat data (activeChatIdRef st)"
  shows "if list_ex (\<lambda>m. \<not> m_isSystem m \<and> m_text m = d_text data \<and>
                         m_sender m = js_or (d_user data) (d_username data) \<and>
                         now - 10000 < m_timestamp m) (messages st)
         then remoteInsert data now ds st = st
         else messages (remoteInsert data now ds st) = messages st @ [remoteMessage data now ds]"
proof -
  have d: "isDuplicateOf data now =
             (\<lambda>m. \<not> m_isSystem m \<and> m_text m = d_text data \<and>
                   m_sender m = js_or (d_user data) (d_username data) \<and>
                   now - 10000 < m_timestamp m)"
    by (auto simp: isDuplicateOf_def Let_def fun_eq_iff)
  show ?thesis
  proof (cases "find (isDuplicateOf data now) (messages st)")
    case None
    then have "\<not> list_ex (isDuplicateOf data now) (messages st)"
      by (simp add: find_None_list_ex)
    moreover have "messages (remoteInsert data now ds st) = messages st @ [remoteMessage data now ds]"
      using None fresh here by (auto simp: remoteInsert_def Let_def split: option.splits)
    ultimately show ?thesis by (simp add: d)
  next
    case (Some dup)
    then have "list_ex (isDuplicateOf data now) (messages st)"
      using find_None_list_ex[of "isDuplicateOf data now" "messages st"] by simp
    moreover have "remoteInsert data now ds st = st"
      using Some by (simp add: remoteInsert_def Let_def)
    ultimately show ?thesis by (simp add: d)
  qed
qed

text \<open>
  Bob's \<open>hey\<close> of time 1000 is in the log; the same body from Bob under a new id is rejected
  at time 5000 and appended at time 20000.
\<close>

theorem content_duplicate_window_witness:
  "\<not> forOtherChat (messageEvent (Some ''srv-2'') None (Some ''Bob'') ''hey'' None (Some ''c1''))
       (activeChatIdRef (aliceIn ''c1'' [remoteMessage (messageEvent (Some ''srv-1'') None (Some ''Bob'') ''hey'' (Some 1000) (Some ''c1'')) 1000 []])) \<and>
   remoteInsert (messageEvent (Some ''srv-2'') None (Some ''Bob'') ''hey'' None (Some ''c1'')) 5000 []
       (aliceIn ''c1'' [remoteMessage (messageEvent (Some ''srv-1'') None (Some ''Bob'') ''hey'' (Some 1000) (Some ''c1'')) 1000 []])
     = aliceIn ''c1'' [remoteMessage (messageEvent (Some ''srv-1'') None (Some ''Bob'') ''hey'' (Some 1000) (Some ''c1'')) 1000 []] \<and>
   messages (remoteInsert (messageEvent (Some ''srv-2'') None (Some ''Bob'') ''hey'' None (Some ''c1'')) 20000 []
       (aliceIn ''c1'' [remoteMessage (messageEvent (Some ''srv-1'') None (Some ''Bob'') ''hey'' (Some 1000) (Some ''c1'')) 1000 []]))
     = messages (aliceIn ''c1'' [remoteMessage (messageEvent (Some ''srv-1'') None (Some ''Bob'') ''hey'' (Some 1000) (Some ''c1'')) 1000 []])
       @ [remoteMessage (messageEvent (Some ''srv-2'') None (Some ''Bob'') ''hey'' None (Some ''c1'')) 20000 []]"
proof -
  let ?ev = "messageEvent (Some ''srv-2'') None (Some ''Bob'') ''hey'' None (Some ''c1'')"
  let ?st = "aliceIn ''c1'' [remoteMessage (messageEvent (Some ''srv-1'') None (Some ''Bob'') ''hey'' (Some 1000) (Some ''c1'')) 1000 []]"
  have h1: "\<not> (truthy (d_id ?ev) \<and> list_ex (\<lambda>m. m_id m = d_id ?ev) (messages ?st))" by code_simp
  have h2: "\<not> forOtherChat ?ev (activeChatIdRef ?st)" by code_simp
  have young: "list_ex (\<lambda>m. \<not> m_isSystem m \<and> m_text m = d_text ?ev \<and>
                         m_sender m = js_or (d_user ?ev) (d_username ?ev) \<and>
                         5000 - 10000 < m_timestamp m) (messages ?st)" by code_simp
  have old: "\<not> list_ex (\<lambda>m. \<not> m_isSystem m \<and> m_text m = d_text ?ev \<and>
                         m_sender m = js_or (d_user ?ev) (d_username ?ev) \<and>
                         20000 - 10000 < m_timestamp m) (messages ?st)" by code_simp
  have "remoteInsert ?ev 5000 [] ?st = ?st"
    using content_duplicate_window[OF h1 h2, of 5000 "[]"] young by (simp only: if_True)
  moreover have "messages (remoteInsert ?ev 20000 [] ?st) = messages ?st @ [remoteMessage ?ev 20000 []]"
    using content_duplicate_window[OF h1 h2, of 20000 "[]"] old by (simp only: if_False)
  ultimately show ?thesis using h2 by blast
qed

subsection \<open>Local ids and the hyphen test\<close>

text \<open>
  Claim C10. Every entry that a text send or a media send adds to the log (the optimistic
  message, and a notice if there is one) has an id without a hyphen, as has every id that
  \<^verbatim>\<open>addMessage\<close> returns. And an entry whose id has a hyphen and is not the event's token
  is never rewritten: the callback of the reconciliation returns it as it is, without a
  match, and after a run of the handler it is in its place with its value. So an entry that
  has been given a server id with a hyphen is not reconciled again by the fallback test.
\<close>

theorem local_ids_have_no_hyphen:
  "list_all looksLocal (drop (length (messages st)) (messages (sendMessage body r now ds ds' st))) \<and>
   list_all looksLocal (drop (length (messages st)) (messages (sendMediaMessage u r c now ds ds' st))) \<and>
   \<not> includesHyphen (fst (addMessage body sndr isMe isSystem r now ds st)) \<and>
   (includesHyphen i \<and> m_id msg = Some i \<and> d_tempId data \<noteq> Some i \<longrightarrow>
      syncOne data fromMe msg = Inr (False, msg)) \<and>
   (includesHyphen i \<and> onMessage data now ds st = Inr st' \<and> k < length (messages st) \<and>
    m_id (messages st ! k) = Some i \<and> d_tempId data \<noteq> Some i \<longrightarrow>
      messages st' ! k = messages st ! k)"
proof (intro conjI impI)
  show "list_all looksLocal (drop (length (messages st)) (messages (sendMessage body r now ds ds' st)))"
    using sendMessage_messages[of body r now ds ds' st] by (auto simp: looksLocal_new)
  show "list_all looksLocal (drop (length (messages st)) (messages (sendMediaMessage u r c now ds ds' st)))"
    using sendMediaMessage_messages[of u r c now ds ds' st]
    by (auto simp: looksLocal_new looksLocal_media)
  show "\<not> includesHyphen (fst (addMessage body sndr isMe isSystem r now ds st))"
    by (simp add: addMessage_eq randomId_no_hyphen)
  show "syncOne data fromMe msg = Inr (False, msg)"
    if "includesHyphen i \<and> m_id msg = Some i \<and> d_tempId data \<noteq> Some i"
    using that by (auto simp: syncOne_def)
  show "messages st' ! k = messages st ! k"
    if "includesHyphen i \<and> onMessage data now ds st = Inr st' \<and> k < length (messages st) \<and>
        m_id (messages st ! k) = Some i \<and> d_tempId data \<noteq> Some i"
    using that onMessage_nth by blast
qed

text \<open>
  Alice's \<open>hi\<close> has the server id \<open>srv-42\<close>. Her own echo of a later \<open>hi\<close>, with no token,
  leaves it alone and is appended.
\<close>

theorem local_ids_have_no_hyphen_witness:
  "includesHyphen ''srv-42'' \<and>
   m_id (newLocalMessage ''srv-42'' ''hi'' ''Alice'' 2000 True False None) = Some ''srv-42'' \<and>
   d_tempId (messageEvent (Some ''srv-43'') None (Some ''Alice'') ''hi'' None (Some ''c1'')) \<noteq> Some ''srv-42'' \<and>
   syncOne (messageEvent (Some ''srv-43'') None (Some ''Alice'') ''hi'' None (Some ''c1'')) True
       (newLocalMessage ''srv-42'' ''hi'' ''Alice'' 2000 True False None)
     = Inr (False, newLocalMessage ''srv-42'' ''hi'' ''Alice'' 2000 True False None) \<and>
   onMessage (messageEvent (Some ''srv-43'') None (Some ''Alice'') ''hi'' None (Some ''c1'')) 20000 []
       (aliceIn ''c1'' [newLocalMessage ''srv-42'' ''hi'' ''Alice'' 2000 True False None])
     = Inr (remoteInsert (messageEvent (Some ''srv-43'') None (Some ''Alice'') ''hi'' None (Some ''c1'')) 20000 []
              (aliceIn ''c1'' [newLocalMessage ''srv-42'' ''hi'' ''Alice'' 2000 True False None])) \<and>
   length (messages (remoteInsert (messageEvent (Some ''srv-43'') None (Some ''Alice'') ''hi'' None (Some ''c1'')) 20000 []
              (aliceIn ''c1'' [newLocalMessage ''srv-42'' ''hi'' ''Alice'' 2000 True False None]))) = 2 \<and>
   messages (remoteInsert (messageEvent (Some ''srv-43'') None (Some ''Alice'') ''hi'' None (Some ''c1'')) 20000 []
              (aliceIn ''c1'' [newLocalMessage ''srv-42'' ''hi'' ''Alice'' 2000 True False None])) ! 0
     = messages (aliceIn ''c1'' [newLocalMessage ''srv-42'' ''hi'' ''Alice'' 2000 True False None]) ! 0"
proof -
  let ?msg = "newLocalMessage ''srv-42'' ''hi'' ''Alice'' 2000 True False None"
  let ?ev = "messageEvent (Some ''srv-43'') None (Some ''Alice'') ''hi'' None (Some ''c1'')"
  let ?st = "aliceIn ''c1'' [?msg]"
  let ?st' = "remoteInsert ?ev 20000 [] ?st"
  have h1: "includesHyphen ''srv-42''" by code_simp
  have h2: "m_id ?msg = Some ''srv-42''" by (simp add: newLocalMessage_def)
  have h3: "d_tempId ?ev \<noteq> Some ''srv-42''" by (simp add: messageEvent_def)
  have h4: "onMessage ?ev 20000 [] ?st = Inr ?st'" by code_simp
  have h5: "0 < length (messages ?st)" by code_simp
  have h6: "m_id (messages ?st ! 0) = Some ''srv-42''" by code_simp
  have h7: "length (messages ?st') = 2" by code_simp
  note t = local_ids_have_no_hyphen[where i = "''srv-42''" and msg = ?msg and data = ?ev
      and fromMe = True and now = 20000 and ds = "[]" and st = ?st and st' = ?st' and k = 0]
  have "syncOne ?ev True ?msg = Inr (False, ?msg)" using t h1 h2 h3 by blast
  moreover have "messages ?st' ! 0 = messages ?st ! 0" using t h1 h3 h4 h5 h6 by blast
  ultimately show ?thesis using h1 h2 h3 h4 h7 by blast
qed

subsection \<open>Fallback reconciliation\<close>




subsection \<open>Dispatching without a connection\<close>

lemma trim_Nil: "trim [] = []"
  by (simp add: trim_def)

text \<open>
  Claim C6, as stated, fails: without a connection \<^verbatim>\<open>editMessage\<close> returns at its guard.
  Alice is offline, demo mode is off, her log holds one message; after the edit the state is
  the same, so the log has no notice.
\<close>

theorem disconnected_notice_counterexample:
  "\<not> socketConnected (aliceOffline\<lparr>messages := [newLocalMessage ''srv-1'' ''hi'' ''Alice'' 1000 True False None]\<rparr>) \<and>
   \<not> isDemoMode (settings (aliceOffline\<lparr>messages := [newLocalMessage ''srv-1'' ''hi'' ''Alice'' 1000 True False None]\<rparr>)) \<and>
   editMessage ''srv-1'' ''hello'' 5000
       (aliceOffline\<lparr>messages := [newLocalMessage ''srv-1'' ''hi'' ''Alice'' 1000 True False None]\<rparr>)
     = aliceOffline\<lparr>messages := [newLocalMessage ''srv-1'' ''hi'' ''Alice'' 1000 True False None]\<rparr> \<and>
   \<not> list_ex m_isSystem
       (messages (editMessage ''srv-1'' ''hello'' 5000
          (aliceOffline\<lparr>messages := [newLocalMessage ''srv-1'' ''hi'' ''Alice'' 1000 True False None]\<rparr>)))"
  by code_simp

text \<open>
  Claim C6, amended. While the socket is not connected and demo mode is off, no operation
  of the dispatcher emits. A text send whose trimmed body is not empty appends the
  optimistic message and then the system notice \<^verbatim>\<open>Message not sent: Disconnected\<close>; a text
  send whose trimmed body is empty does nothing. A media send appends the optimistic message
  and then the system notice \<^verbatim>\<open>Media not sent: Disconnected\<close>. Edit, delete, react, forward
  and create conversation return at their guard: the state is unchanged, and no notice is
  appended.
\<close>

theorem disconnected_dispatch:
  assumes off: "\<not> socketConnected st" and nodemo: "\<not> isDemoMode (settings st)"
  shows "(if trim body = [] then sendMessage body r now ds ds' st = st
          else messages (sendMessage body r now ds ds' st) =
                 messages st @
                   [newLocalMessage (randomId ds) (trim body) (senderOf (settings st)) now True False r,
                    newLocalMessage (randomId ds') ''Message not sent: Disconnected'' ''System'' now False True None] \<and>
               endsInNotice ''Message not sent: Disconnected'' (messages (sendMessage body r now ds ds' st)) \<and>
               emitted (sendMessage body r now ds ds' st) = emitted st) \<and>
         messages (sendMediaMessage u r c now ds ds' st) =
           messages st @
             [localMediaMessage u (randomId ds) (mediaCaption u c) (senderOf (settings st)) now r,
              newLocalMessage (randomId ds') ''Media not sent: Disconnected'' ''System'' now False True None] \<and>
         endsInNotice ''Media not sent: Disconnected'' (messages (sendMediaMessage u r c now ds ds' st)) \<and>
         emitted (sendMediaMessage u r c now ds ds' st) = emitted st \<and>
         editMessage i newText now st = st \<and>
         deleteMessage i st = st \<and>
         toggleReaction i emoji st = st \<and>
         forwardMessage msg target st = st \<and>
         createChat name description st = st"
proof -
  have u: "senderOf (settings st) \<noteq> []"
    by (simp add: senderOf_def Let_def)
  have blank: "sendMessage body r now ds ds' st = st" if "trim body = []"
    using that by (simp add: sendMessage_def Let_def)
  have sent: "messages (sendMessage body r now ds ds' st) =
                 messages st @
                   [newLocalMessage (randomId ds) (trim body) (senderOf (settings st)) now True False r,
                    newLocalMessage (randomId ds') ''Message not sent: Disconnected'' ''System'' now False True None]"
       and quiet: "emitted (sendMessage body r now ds ds' st) = emitted st"
    if "trim body \<noteq> []"
  proof -
    have b: "body \<noteq> []" using that trim_Nil by auto
    have so: "\<not> socketConnected (st\<lparr>messages := ms\<rparr>)" for ms
      using off by (simp add: socketConnected_def)
    show "messages (sendMessage body r now ds ds' st) =
                 messages st @
                   [newLocalMessage (randomId ds) (trim body) (senderOf (settings st)) now True False r,
                    newLocalMessage (randomId ds') ''Message not sent: Disconnected'' ''System'' now False True None]"
      using that b u nodemo so by (simp add: sendMessage_def Let_def addMessage_eq)
    show "emitted (sendMessage body r now ds ds' st) = emitted st"
      using that b u nodemo so by (simp add: sendMessage_def Let_def addMessage_eq)
  qed
  have media: "messages (sendMediaMessage u r c now ds ds' st) =
           messages st @
             [localMediaMessage u (randomId ds) (mediaCaption u c) (senderOf (settings st)) now r,
              newLocalMessage (randomId ds') ''Media not sent: Disconnected'' ''System'' now False True None]"
    and mediae: "emitted (sendMediaMessage u r c now ds ds' st) = emitted st"
    using off nodemo by (simp_all add: sendMediaMessage_def Let_def addMessage_eq socketConnected_def)
  have notice: "endsInNotice t (ms @ [x, newLocalMessage j t ''System'' now False True None])" for t ms x j
    by (simp add: endsInNotice_def newLocalMessage_def)
  have rest: "editMessage i newText now st = st" "deleteMessage i st = st"
    "toggleReaction i emoji st = st" "forwardMessage msg target st = st"
    "createChat name description st = st"
    using off by (simp_all add: editMessage_def deleteMessage_def toggleReaction_def
        forwardMessage_def createChat_def)
  show ?thesis
    using blank sent quiet media mediae rest notice by simp
qed

text \<open>Alice, offline, sends \<open>hello\<close> and a photo, and tries the other operations.\<close>

theorem disconnected_dispatch_witness:
  "\<not> socketConnected aliceOffline \<and> \<not> isDemoMode (settings aliceOffline) \<and>
   messages (sendMessage ''hello'' None 1000 [1, 2, 3, 4, 5, 6, 7, 8] [8, 7, 6, 5, 4, 3, 2, 1] aliceOffline)
     = [newLocalMessage ''678'' ''hello'' ''Alice'' 1000 True False None,
        newLocalMessage ''321'' ''Message not sent: Disconnected'' ''System'' 1000 False True None] \<and>
   emitted (sendMessage ''hello'' None 1000 [1, 2, 3, 4, 5, 6, 7, 8] [8, 7, 6, 5, 4, 3, 2, 1] aliceOffline) = [] \<and>
   endsInNotice ''Media not sent: Disconnected''
     (messages (sendMediaMessage photo None None 1000 [1, 2, 3, 4, 5, 6, 7, 8] [8, 7, 6, 5, 4, 3, 2, 1] aliceOffline)) \<and>
   deleteMessage ''srv-1'' aliceOffline = aliceOffline \<and>
   createChat ''news'' None aliceOffline = aliceOffline"
proof -
  have h1: "\<not> socketConnected aliceOffline" by code_simp
  have h2: "\<not> isDemoMode (settings aliceOffline)" by code_simp
  note t = disconnected_dispatch[OF h1 h2, where body = "''hello''" and r = None and now = 1000
      and ds = "[1, 2, 3, 4, 5, 6, 7, 8]" and ds' = "[8, 7, 6, 5, 4, 3, 2, 1]" and u = photo
      and c = None and i = "''srv-1''" and name = "''news''" and description = None]
  have nb: "trim ''hello'' \<noteq> []" by code_simp
  have e1: "messages aliceOffline @
                   [newLocalMessage (randomId [1, 2, 3, 4, 5, 6, 7, 8]) (trim ''hello'') (senderOf (settings aliceOffline)) 1000 True False None,
                    newLocalMessage (randomId [8, 7, 6, 5, 4, 3, 2, 1]) ''Message not sent: Disconnected'' ''System'' 1000 False True None]
      = [newLocalMessage ''678'' ''hello'' ''Alice'' 1000 True False None,
        newLocalMessage ''321'' ''Message not sent: Disconnected'' ''System'' 1000 False True None]"
    by code_simp
  have e2: "emitted aliceOffline = []" by code_simp
  from t[unfolded if_not_P[OF nb]] have
    "messages (sendMessage ''hello'' None 1000 [1, 2, 3, 4, 5, 6, 7, 8] [8, 7, 6, 5, 4, 3, 2, 1] aliceOffline) =
       messages aliceOffline @
                   [newLocalMessage (randomId [1, 2, 3, 4, 5, 6, 7, 8]) (trim ''hello'') (senderOf (settings aliceOffline)) 1000 True False None,
                    newLocalMessage (randomId [8, 7, 6, 5, 4, 3, 2, 1]) ''Message not sent: Disconnected'' ''System'' 1000 False True None]"
    and "emitted (sendMessage ''hello'' None 1000 [1, 2, 3, 4, 5, 6, 7, 8] [8, 7, 6, 5, 4, 3, 2, 1] aliceOffline) = emitted aliceOffline"
    and "endsInNotice ''Media not sent: Disconnected''
     (messages (sendMediaMessage photo None None 1000 [1, 2, 3, 4, 5, 6, 7, 8] [8, 7, 6, 5, 4, 3, 2, 1] aliceOffline))"
    and "deleteMessage ''srv-1'' aliceOffline = aliceOffline"
    and "createChat ''news'' None aliceOffline = aliceOffline"
    by blast+
  then show ?thesis using h1 h2 e1 e2 by simp
qed

subsection \<open>Reordering the directory\<close>

lemma findIndex_None: "findIndex P xs = None \<longleftrightarrow> \<not> list_ex P xs"
  by (induction xs) (auto split: option.splits)

lemma findIndex_Some:
  "findIndex P xs = Some i \<Longrightarrow>
   i < length xs \<and> P (xs ! i) \<and> find P xs = Some (xs ! i) \<and> \<not> list_ex P (take i xs)"
proof (induction xs arbitrary: i)
  case Nil
  then show ?case by simp
next
  case (Cons x xs)
  then show ?case by (cases "P x") (auto split: option.splits)
qed

text \<open>In a directory without duplicates the updater moves a listed conversation to the front.\<close>

lemma moveChatToTop_moves:
  assumes d: "distinct (map c_id cs)" and inl: "cid \<in> set (map c_id cs)"
  shows "movedToFront cid ts cs (moveChatToTop cid ts cs)"
proof -
  have "list_ex (\<lambda>c. c_id c = cid) cs" using inl by (auto simp: list_ex_iff)
  then obtain i where fi: "findIndex (\<lambda>c. c_id c = cid) cs = Some i"
    using findIndex_None[of "\<lambda>c. c_id c = cid" cs] by (cases "findIndex (\<lambda>c. c_id c = cid) cs") auto
  from findIndex_Some[OF fi]
  have i: "i < length cs" and ci: "c_id (cs ! i) = cid"
    and fd: "find (\<lambda>c. c_id c = cid) cs = Some (cs ! i)" by auto
  have split: "cs = take i cs @ cs ! i # drop (Suc i) cs"
    using i by (rule id_take_nth_drop)
  have "distinct (map c_id (take i cs) @ cid # map c_id (drop (Suc i) cs))"
    using d ci by (subst (asm) split) simp
  then have nl: "cid \<notin> set (map c_id (take i cs))" and nr: "cid \<notin> set (map c_id (drop (Suc i) cs))"
    and dl: "distinct (map c_id (take i cs) @ map c_id (drop (Suc i) cs))"
    by auto
  have fl: "filter (\<lambda>x. c_id x \<noteq> cid) (take i cs) = take i cs"
    using nl by (auto simp: filter_id_conv)
  have fr: "filter (\<lambda>x. c_id x \<noteq> cid) (drop (Suc i) cs) = drop (Suc i) cs"
    using nr by (auto simp: filter_id_conv)
  have "filter (\<lambda>x. c_id x \<noteq> cid) cs =
        filter (\<lambda>x. c_id x \<noteq> cid) (take i cs @ cs ! i # drop (Suc i) cs)"
    using split by simp
  then have others: "filter (\<lambda>x. c_id x \<noteq> cid) cs = take i cs @ drop (Suc i) cs"
    using fl fr ci by simp
  have "remove1 cid (map c_id cs) =
        remove1 cid (map c_id (take i cs) @ cid # map c_id (drop (Suc i) cs))"
    using ci by (subst split) simp
  then have ids: "remove1 cid (map c_id cs) = map c_id (take i cs) @ map c_id (drop (Suc i) cs)"
    using nl by (simp add: remove1_append)
  have mv: "moveChatToTop cid ts cs =
            (cs ! i)\<lparr>c_lastMessageAt := Some (TimeNumber ts)\<rparr> # (take i cs @ drop (Suc i) cs)"
    using fi by (simp add: moveChatToTop_def Let_def)
  show ?thesis
    using fd mv others ids ci nl nr dl by (simp add: movedToFront_def)
qed

text \<open>A text send, and a media send, either emits nothing and keeps the directory, or emits
  one message and reorders the directory for the active conversation.\<close>

lemma sendMessage_effect:
  "emitted (sendMessage body r now ds ds' st) = emitted st \<and>
     chats (sendMessage body r now ds ds' st) = chats st \<or>
   (\<exists>p ms. sendMessage body r now ds ds' st =
      moveActiveChatToTop now (st\<lparr>messages := ms, emitted := emitted st @ [EmitMessage p]\<rparr>))"
proof (cases "body = [] \<or> trim body = []")
  case True
  then show ?thesis by (auto simp: sendMessage_def Let_def)
next
  case False
  have u: "senderOf (settings st) \<noteq> []" by (simp add: senderOf_def Let_def)
  show ?thesis
  proof (cases "isDemoMode (settings st)")
    case True
    then show ?thesis using False u by (simp add: sendMessage_def Let_def addMessage_eq)
  next
    case nodemo: False
    show ?thesis
    proof (cases "socketConnected st")
      case True
      then have "socketConnected (st\<lparr>messages := ms\<rparr>)" for ms
        by (simp add: socketConnected_def)
      then have "sendMessage body r now ds ds' st =
          moveActiveChatToTop now
            (st\<lparr>messages := messages st @
                   [newLocalMessage (randomId ds) (trim body) (senderOf (settings st)) now True False r],
                emitted := emitted st @
                   [EmitMessage (textPayload (senderOf (settings st)) (trim body) (randomId ds) r
                      (orUndefined (activeChatId st)))]\<rparr>)"
        using False u nodemo
        by (simp add: sendMessage_def Let_def addMessage_eq textPayload_def)
      then show ?thesis by blast
    next
      case off: False
      then have "\<not> socketConnected (st\<lparr>messages := ms\<rparr>)" for ms
        by (simp add: socketConnected_def)
      then show ?thesis using False u nodemo
        by (simp add: sendMessage_def Let_def addMessage_eq)
    qed
  qed
qed

lemma sendMediaMessage_effect:
  "emitted (sendMediaMessage u r c now ds ds' st) = emitted st \<and>
     chats (sendMediaMessage u r c now ds ds' st) = chats st \<or>
   (\<exists>p ms. sendMediaMessage u r c now ds ds' st =
      moveActiveChatToTop now (st\<lparr>messages := ms, emitted := emitted st @ [EmitMessage p]\<rparr>))"
proof (cases "isDemoMode (settings st)")
  case True
  then show ?thesis by (simp add: sendMediaMessage_def Let_def)
next
  case nodemo: False
  show ?thesis
  proof (cases "socketConnected st")
    case True
    then have "socketConnected (st\<lparr>messages := ms\<rparr>)" for ms
      by (simp add: socketConnected_def)
    then have "sendMediaMessage u r c now ds ds' st =
        moveActiveChatToTop now
          (st\<lparr>messages := messages st @
                 [localMediaMessage u (randomId ds) (mediaCaption u c) (senderOf (settings st)) now r],
              emitted := emitted st @
                 [EmitMessage (mediaPayload u (senderOf (settings st)) (randomId ds) (mediaCaption u c) r
                    (orUndefined (activeChatId st)))]\<rparr>)"
      using nodemo by (simp add: sendMediaMessage_def Let_def)
    then show ?thesis by blast
  next
    case off: False
    then have "\<not> socketConnected (st\<lparr>messages := ms\<rparr>)" for ms
      by (simp add: socketConnected_def)
    then show ?thesis using nodemo by (simp add: sendMediaMessage_def Let_def addMessage_eq)
  qed
qed

text \<open>
  Claim C8, as stated, fails: a forward is an outbound message for a conversation, and it
  does not touch the directory. Alice, in \<open>c1\<close>, forwards Bob's message to \<open>c2\<close>: the
  message for \<open>c2\<close> is emitted and \<open>c2\<close> stays behind \<open>c1\<close>.
\<close>

theorem directory_reordering_counterexample:
  "emitted (forwardMessage (newLocalMessage ''srv-1'' ''hey'' ''Bob'' 1000 False False None) ''c2''
             (aliceIn ''c1'' [newLocalMessage ''srv-1'' ''hey'' ''Bob'' 1000 False False None]))
     = [EmitMessage (forwardPayload ''Alice'' (newLocalMessage ''srv-1'' ''hey'' ''Bob'' 1000 False False None) ''c2'')] \<and>
   o_chatId (forwardPayload ''Alice'' (newLocalMessage ''srv-1'' ''hey'' ''Bob'' 1000 False False None) ''c2'')
     = Some ''c2'' \<and>
   map c_id (chats (aliceIn ''c1'' [newLocalMessage ''srv-1'' ''hey'' ''Bob'' 1000 False False None]))
     = [''c1'', ''c2''] \<and>
   map c_id (chats (forwardMessage (newLocalMessage ''srv-1'' ''hey'' ''Bob'' 1000 False False None) ''c2''
                      (aliceIn ''c1'' [newLocalMessage ''srv-1'' ''hey'' ''Bob'' 1000 False False None])))
     = [''c1'', ''c2'']"
  by code_simp

text \<open>
  Claim C8, amended. Let the directory list the conversation \<open>cid\<close> and no conversation
  twice. A \<^verbatim>\<open>message\<close> event for \<open>cid\<close> that the handler appends to the log, and a text send
  or a media send that emits while \<open>cid\<close> is the active conversation, move \<open>cid\<close> to the
  front: in the new directory \<open>cid\<close> comes first, with its last activity set (to the time of
  the message, or to the clock for a send), the other conversations follow unchanged and in
  their order, and no id occurs twice. (A forward emits without reordering; an echo that is
  reconciled in place leaves the directory as the send has put it; a conversation that the
  directory does not list is not added.)
\<close>

theorem directory_reordering:
  assumes d: "distinct (map c_id (chats st))" and inl: "cid \<in> set (map c_id (chats st))"
    and ne: "cid \<noteq> []"
  shows "(onMessage data now ds st = Inr st' \<and> d_chatId data = Some cid \<and>
          length (messages st) < length (messages st') \<longrightarrow>
            movedToFront cid (case d_createdAt data of Some t \<Rightarrow> t | None \<Rightarrow> now)
              (chats st) (chats st')) \<and>
         (activeChatId st = Some cid \<and> emitted (sendMessage body r now ds ds' st) \<noteq> emitted st \<longrightarrow>
            movedToFront cid now (chats st) (chats (sendMessage body r now ds ds' st))) \<and>
         (activeChatId st = Some cid \<and> emitted (sendMediaMessage u r c now ds ds' st) \<noteq> emitted st \<longrightarrow>
            movedToFront cid now (chats st) (chats (sendMediaMessage u r c now ds ds' st)))"
proof (intro conjI impI)
  assume a: "onMessage data now ds st = Inr st' \<and> d_chatId data = Some cid \<and>
             length (messages st) < length (messages st')"
  from a have r: "onMessage data now ds st = Inr st'"
    and g: "length (messages st) < length (messages st')" by auto
  from onMessage_grew[OF r g] a ne obtain prev' where
    "st' = st\<lparr>chats := moveChatToTop cid (m_timestamp (remoteMessage data now ds)) (chats st),
              messages := prev' @ [remoteMessage data now ds]\<rparr>"
    by auto
  then have "chats st' = moveChatToTop cid (case d_createdAt data of Some t \<Rightarrow> t | None \<Rightarrow> now) (chats st)"
    by (simp add: remoteMessage_def)
  then show "movedToFront cid (case d_createdAt data of Some t \<Rightarrow> t | None \<Rightarrow> now) (chats st) (chats st')"
    using moveChatToTop_moves[OF d inl] by simp
next
  assume a: "activeChatId st = Some cid \<and> emitted (sendMessage body r now ds ds' st) \<noteq> emitted st"
  have "chats (sendMessage body r now ds ds' st) = chats st \<and>
          emitted (sendMessage body r now ds ds' st) = emitted st \<or>
        chats (sendMessage body r now ds ds' st) = moveChatToTop cid now (chats st)"
    using sendMessage_effect[of body r now ds ds' st] a ne
    by (auto simp: moveActiveChatToTop_def)
  then show "movedToFront cid now (chats st) (chats (sendMessage body r now ds ds' st))"
    using a moveChatToTop_moves[OF d inl] by auto
next
  assume a: "activeChatId st = Some cid \<and> emitted (sendMediaMessage u r c now ds ds' st) \<noteq> emitted st"
  have "chats (sendMediaMessage u r c now ds ds' st) = chats st \<and>
          emitted (sendMediaMessage u r c now ds ds' st) = emitted st \<or>
        chats (sendMediaMessage u r c now ds ds' st) = moveChatToTop cid now (chats st)"
    using sendMediaMessage_effect[of u r c now ds ds' st] a ne
    by (auto simp: moveActiveChatToTop_def)
  then show "movedToFront cid now (chats st) (chats (sendMediaMessage u r c now ds ds' st))"
    using a moveChatToTop_moves[OF d inl] by auto
qed

text \<open>
  Alice is in \<open>c2\<close>, the second conversation of her directory. Bob's message for \<open>c2\<close> is
  appended and moves \<open>c2\<close> to the front; so does her own text send.
\<close>

theorem directory_reordering_witness:
  "distinct (map c_id (chats (aliceIn ''c2'' []))) \<and>
   ''c2'' \<in> set (map c_id (chats (aliceIn ''c2'' []))) \<and>
   map c_id (chats (aliceIn ''c2'' [])) = [''c1'', ''c2''] \<and>
   onMessage (messageEvent (Some ''srv-1'') None (Some ''Bob'') ''hey'' (Some 700) (Some ''c2'')) 1000 [] (aliceIn ''c2'' [])
     = Inr (remoteInsert (messageEvent (Some ''srv-1'') None (Some ''Bob'') ''hey'' (Some 700) (Some ''c2'')) 1000 []
              (aliceIn ''c2'' [])) \<and>
   movedToFront ''c2'' 700 (chats (aliceIn ''c2'' []))
     (chats (remoteInsert (messageEvent (Some ''srv-1'') None (Some ''Bob'') ''hey'' (Some 700) (Some ''c2'')) 1000 []
              (aliceIn ''c2'' []))) \<and>
   map c_id (chats (remoteInsert (messageEvent (Some ''srv-1'') None (Some ''Bob'') ''hey'' (Some 700) (Some ''c2'')) 1000 []
              (aliceIn ''c2'' []))) = [''c2'', ''c1''] \<and>
   movedToFront ''c2'' 1000 (chats (aliceIn ''c2'' []))
     (chats (sendMessage ''hello'' None 1000 [1, 2, 3, 4, 5, 6, 7, 8] [] (aliceIn ''c2'' []))) \<and>
   map c_id (chats (sendMessage ''hello'' None 1000 [1, 2, 3, 4, 5, 6, 7, 8] [] (aliceIn ''c2'' []))) = [''c2'', ''c1'']"
proof -
  let ?ev = "messageEvent (Some ''srv-1'') None (Some ''Bob'') ''hey'' (Some 700) (Some ''c2'')"
  let ?st = "aliceIn ''c2'' []"
  let ?st' = "remoteInsert ?ev 1000 [] ?st"
  have h1: "distinct (map c_id (chats ?st))" by code_simp
  have h2: "''c2'' \<in> set (map c_id (chats ?st))" by code_simp
  have h3: "''c2'' \<noteq> []" by simp
  have run: "onMessage ?ev 1000 [] ?st = Inr ?st'" by code_simp
  have to: "d_chatId ?ev = Some ''c2''" by code_simp
  have grew: "length (messages ?st) < length (messages ?st')" by code_simp
  have act: "activeChatId ?st = Some ''c2''" by code_simp
  have em: "emitted (sendMessage ''hello'' None 1000 [1, 2, 3, 4, 5, 6, 7, 8] [] ?st) \<noteq> emitted ?st" by code_simp
  have t700: "(case d_createdAt ?ev of Some t \<Rightarrow> t | None \<Rightarrow> 1000) = 700" by code_simp
  note t1 = directory_reordering[OF h1 h2 h3, where data = ?ev and now = 1000 and ds = "[]" and st' = ?st']
  note t2 = directory_reordering[OF h1 h2 h3, where now = 1000
      and body = "''hello''" and r = None and ds = "[1, 2, 3, 4, 5, 6, 7, 8]" and ds' = "[]"]
  have m1: "movedToFront ''c2'' 700 (chats ?st) (chats ?st')"
    using t1 run to grew t700 by simp
  have m2: "movedToFront ''c2'' 1000 (chats ?st)
              (chats (sendMessage ''hello'' None 1000 [1, 2, 3, 4, 5, 6, 7, 8] [] ?st))"
    using t2 act em by blast
  have o1: "map c_id (chats ?st) = [''c1'', ''c2'']" by code_simp
  have o2: "map c_id (chats ?st') = [''c2'', ''c1'']" by code_simp
  have o3: "map c_id (chats (sendMessage ''hello'' None 1000 [1, 2, 3, 4, 5, 6, 7, 8] [] ?st)) = [''c2'', ''c1'']"
    by code_simp
  show ?thesis using h1 h2 run m1 m2 o1 o2 o3 by blast
qed

subsection \<open>A history that arrives late\<close>

text \<open>The continuation of \<^verbatim>\<open>loadHistory\<close> replaces the log whatever conversation is active.\<close>

lemma loadHistory_resume_replaces:
  "messages (loadHistory_resume f (Ok dbMessages) st) = map (fromDb (snd f)) (rev dbMessages)"
  by (simp add: loadHistory_resume_def Let_def)

text \<open>
  Claim C7 does not hold of the code. Alice, online, chooses \<open>c1\<close> and then \<open>c2\<close>; both
  fetches are in flight. The history of \<open>c2\<close> arrives, and after it the history of \<open>c1\<close>:
  the continuation of the first fetch does not look at the active conversation and
  replaces the log, so that with \<open>c2\<close> active the log holds the message of \<open>c1\<close>.
\<close>

theorem stale_history_replaces_log:
  "fetches (setActiveChatId ''c2'' (setActiveChatId ''c1'' aliceOnline))
     = [(''c1'', ''Alice''), (''c2'', ''Alice'')] \<and>
   messages (loadHistory_resume (''c2'', ''Alice'') (Ok [historyRow ''srv-b'' ''Bob'' ''in c2'' 50 ''c2''])
               (setActiveChatId ''c2'' (setActiveChatId ''c1'' aliceOnline)))
     = [fromDb ''Alice'' (historyRow ''srv-b'' ''Bob'' ''in c2'' 50 ''c2'')] \<and>
   activeChatId
     (loadHistory_resume (''c1'', ''Alice'') (Ok [historyRow ''srv-a'' ''Bob'' ''in c1'' 40 ''c1''])
        (loadHistory_resume (''c2'', ''Alice'') (Ok [historyRow ''srv-b'' ''Bob'' ''in c2'' 50 ''c2''])
           (setActiveChatId ''c2'' (setActiveChatId ''c1'' aliceOnline))))
     = Some ''c2'' \<and>
   activeChatIdRef
     (loadHistory_resume (''c1'', ''Alice'') (Ok [historyRow ''srv-a'' ''Bob'' ''in c1'' 40 ''c1''])
        (loadHistory_resume (''c2'', ''Alice'') (Ok [historyRow ''srv-b'' ''Bob'' ''in c2'' 50 ''c2''])
           (setActiveChatId ''c2'' (setActiveChatId ''c1'' aliceOnline))))
     = Some ''c2'' \<and>
   messages
     (loadHistory_resume (''c1'', ''Alice'') (Ok [historyRow ''srv-a'' ''Bob'' ''in c1'' 40 ''c1''])
        (loadHistory_resume (''c2'', ''Alice'') (Ok [historyRow ''srv-b'' ''Bob'' ''in c2'' 50 ''c2''])
           (setActiveChatId ''c2'' (setActiveChatId ''c1'' aliceOnline))))
     = [fromDb ''Alice'' (historyRow ''srv-a'' ''Bob'' ''in c1'' 40 ''c1'')] \<and>
   m_chatId (fromDb ''Alice'' (historyRow ''srv-a'' ''Bob'' ''in c1'' 40 ''c1'')) = Some ''c1''"
  by code_simp

subsection \<open>The flag of own messages\<close>

text \<open>
  Claim C9 does not hold of the code. The current user is \<open>Alice\<close>. A row of the history
  whose sender is written \<open>alice\<close> is the same name for the handler's comparison, and
  \<^verbatim>\<open>loadHistory\<close>, which compares with \<^verbatim>\<open>===\<close>, loads it with the flag off. A message of
  \<open>Alice\<close> herself that reaches the remote insert (sent from elsewhere, with no entry of that
  body in the log) is appended with the flag off, as every remote insert is.
\<close>

theorem own_flag_not_normalised:
  "username (settings (aliceIn ''c1'' [])) = ''Alice'' \<and>
   sameName ''alice'' ''Alice'' \<and>
   map (\<lambda>m. (m_sender m, m_isSystem m, m_isMe m))
     (messages (loadHistory_resume (''c1'', ''Alice'') (Ok [historyRow ''srv-1'' ''alice'' ''hi'' 10 ''c1''])
                  (aliceIn ''c1'' [])))
     = [(Some ''alice'', False, False)] \<and>
   isFromMe (settings (aliceIn ''c1'' []))
     (messageEvent (Some ''srv-2'') None (Some ''Alice'') ''from my phone'' None (Some ''c1'')) \<and>
   onMessage (messageEvent (Some ''srv-2'') None (Some ''Alice'') ''from my phone'' None (Some ''c1'')) 1000 []
       (aliceIn ''c1'' [])
     = Inr (remoteInsert (messageEvent (Some ''srv-2'') None (Some ''Alice'') ''from my phone'' None (Some ''c1''))
              1000 [] (aliceIn ''c1'' [])) \<and>
   map (\<lambda>m. (m_sender m, m_isSystem m, m_isMe m))
     (messages (remoteInsert (messageEvent (Some ''srv-2'') None (Some ''Alice'') ''from my phone'' None (Some ''c1''))
                  1000 [] (aliceIn ''c1'' [])))
     = [(Some ''Alice'', False, False)]"
  by code_simp

end
